theory Spec2Isabelle
  imports Main "HOL-Library.Char_ord" "HOL-Library.List_Lexorder" "HOL-Library.Option_ord"
    "HOL-Library.Multiset"
begin

section \<open>The expense tracker: data-access layer and auth routes\<close>

text \<open>
  A shallow embedding of \<^verbatim>\<open>backend/models.py\<close> (Database, UserModel, ExpenseModel,
  CategoryModel) and of the \<^verbatim>\<open>register\<close> and \<^verbatim>\<open>login\<close> routes of
  \<^verbatim>\<open>backend/app.py\<close>.

  Modelling decisions.
  \<^item> The MySQL server is a record of three tables. A connection works on a snapshot of the
    committed tables (its transaction view); \<^verbatim>\<open>commit\<close> writes the view back,
    \<^verbatim>\<open>rollback\<close> and \<^verbatim>\<open>close\<close> drop it.
  \<^item> Every round trip to the server (connect, execute, commit, rollback) may fail. The
    failures are driven by a schedule \<open>faults\<close> in the state: each round trip takes
    the head of the schedule and raises when it is \<open>True\<close>; an empty schedule means no
    failure. Theorems that do not mention \<open>faults\<close> hold under every schedule.
  \<^item> \<^verbatim>\<open>close\<close> does not raise (PyMySQL ignores errors while sending the quit
    command).
  \<^item> Columns the code introspects (\<^verbatim>\<open>username\<close>/\<^verbatim>\<open>name\<close> of users;
    \<^verbatim>\<open>user_id\<close>, \<^verbatim>\<open>title\<close>, \<^verbatim>\<open>description\<close> of expenses) may be present
    or absent; a statement that names an absent column raises, as MySQL error 1054 does.
  \<^item> Amounts are integers counting hundredths, the content of a DECIMAL(10,2) column. Python
    floats are represented by the decimal number they were converted from: the rounding of
    binary floating point is outside this model.
  \<^item> A date is an integer ordinal; only the order of dates is used. The text produced by
    \<^verbatim>\<open>strftime\<close> is represented by the date itself.
  \<^item> \<open>console\<close> holds the error lines the code prints (without the leading symbol); the
    DEBUG and success lines are not modelled.
  \<^item> String comparison in SQL is modelled as equality and the binary order of strings.
  \<^item> Of the constraints of the schema, the auto-increment primary keys, the foreign key of
    \<^verbatim>\<open>expenses.category_id\<close> and the unique category name are modelled; NOT NULL and
    the range of DECIMAL(10,2) are not.
\<close>

subsection \<open>Rows and tables\<close>

type_synonym date = int

record user_row =
  u_id :: int
  u_username :: "string option"
  u_name :: "string option"
  u_email :: string
  u_password :: string

record category_row =
  c_id :: int
  c_name :: string
  c_description :: "string option"

record expense_row =
  e_id :: int
  e_user_id :: "int option"
  e_title :: "string option"
  e_category_id :: "int option"
  e_amount :: int
  e_description :: "string option"
  e_expense_date :: "date option"
  e_created_at :: date

record database =
  users :: "user_row list"
  users_has_username :: bool
  users_has_name :: bool
  next_user_id :: int
  categories :: "category_row list"
  next_category_id :: int
  expenses :: "expense_row list"
  expenses_has_user_id :: bool
  expenses_has_title :: bool
  expenses_has_description :: bool
  next_expense_id :: int
  now :: date

definition users_columns :: "database \<Rightarrow> string list" where
  "users_columns db =
     [''id''] @ (if users_has_username db then [''username''] else [])
       @ (if users_has_name db then [''name''] else []) @ [''email'', ''password'']"

definition categories_columns :: "string list" where
  "categories_columns = [''id'', ''name'', ''description'']"

definition expenses_columns :: "database \<Rightarrow> string list" where
  "expenses_columns db =
     [''id''] @ (if expenses_has_user_id db then [''user_id''] else [])
       @ (if expenses_has_title db then [''title''] else [])
       @ [''category_id'', ''amount'']
       @ (if expenses_has_description db then [''description''] else [])
       @ [''expense_date'', ''created_at'']"

subsection \<open>Program state, exceptions and the connection\<close>

datatype exn =
    OperationalError string
  | ProgrammingError string
  | IntegrityError string
  | InterfaceError string
  | Exception string

fun str :: "exn \<Rightarrow> string" where
  "str (OperationalError m) = m"
| "str (ProgrammingError m) = m"
| "str (IntegrityError m) = m"
| "str (InterfaceError m) = m"
| "str (Exception m) = m"

record session =
  user_id :: "int option"
  user_name :: "string option"
  user_email :: "string option"
  permanent :: bool
  flashes :: "(string \<times> string) list"

record table_structure =
  all_columns :: "string list"
  has_title :: bool
  has_name :: bool
  has_description :: bool
  has_user_id :: bool
  date_column :: string

record state =
  stored :: database
  faults :: "bool list"
  open_conns :: nat
  console :: "string list"
  session :: session
  table_columns :: "table_structure option"

type_synonym 'a io = "state \<Rightarrow> (exn + 'a) \<times> state"

definition io_bind :: "'a io \<Rightarrow> ('a \<Rightarrow> 'b io) \<Rightarrow> 'b io" where
  "io_bind m f s = (case m s of (Inl e, s1) \<Rightarrow> (Inl e, s1) | (Inr v, s1) \<Rightarrow> f v s1)"

definition print :: "string \<Rightarrow> state \<Rightarrow> state" where
  "print line s = s\<lparr>console := console s @ [line]\<rparr>"

definition round_trip :: "exn \<Rightarrow> unit io" where
  "round_trip e s =
     (case faults s of
        [] \<Rightarrow> (Inr (), s)
      | f # fs \<Rightarrow> (if f then Inl e else Inr (), s\<lparr>faults := fs\<rparr>))"

definition get_connection :: "database io" where
  "get_connection s =
     (case round_trip (OperationalError ''(2003) cannot connect to MySQL server'') s of
        (Inl e, s1) \<Rightarrow> (Inl e, s1)
      | (Inr _, s1) \<Rightarrow> (Inr (stored s1), s1\<lparr>open_conns := Suc (open_conns s1)\<rparr>))"

type_synonym 'r statement = "database \<Rightarrow> exn + ('r \<times> database)"

definition execute :: "'r statement \<Rightarrow> database \<Rightarrow> ('r \<times> database) io" where
  "execute stmt view s =
     (case round_trip (OperationalError ''(2013) lost connection to MySQL server during query'') s of
        (Inl e, s1) \<Rightarrow> (Inl e, s1)
      | (Inr _, s1) \<Rightarrow> (stmt view, s1))"

definition commit :: "database \<Rightarrow> unit io" where
  "commit view s =
     (case round_trip (OperationalError ''(2013) lost connection to MySQL server during query'') s of
        (Inl e, s1) \<Rightarrow> (Inl e, s1)
      | (Inr _, s1) \<Rightarrow> (Inr (), s1\<lparr>stored := view\<rparr>))"

definition rollback_error :: exn where
  "rollback_error = InterfaceError ''(0)''"

definition rollback :: "unit io" where
  "rollback = round_trip rollback_error"

definition close :: "state \<Rightarrow> state" where
  "close s = s\<lparr>open_conns := open_conns s - 1\<rparr>"

text \<open>
  The skeleton every method of \<^verbatim>\<open>models.py\<close> shares:
  \<^verbatim>\<open>
  connection = None
  try:
      connection = self.db.get_connection()
      with connection.cursor() as cursor: BODY
  except Exception as e: HANDLER
  finally:
      if connection: connection.close()
  \<close>
  The handler is told whether \<^verbatim>\<open>connection\<close> was assigned; the \<^verbatim>\<open>finally\<close> clause
  runs after the body and after the handler, also when the handler raises.
\<close>

definition with_connection :: "(database \<Rightarrow> 'a io) \<Rightarrow> (exn \<Rightarrow> bool \<Rightarrow> 'a io) \<Rightarrow> 'a io" where
  "with_connection body handler s =
     (case get_connection s of
        (Inl e, s1) \<Rightarrow> handler e False s1
      | (Inr view, s1) \<Rightarrow>
          (case body view s1 of
             (Inl e, s2) \<Rightarrow> (case handler e True s2 of (r, s3) \<Rightarrow> (r, close s3))
           | (Inr v, s2) \<Rightarrow> (Inr v, close s2)))"

text \<open>
  The handler of the methods that swallow the exception:
  \<^verbatim>\<open>except Exception as e: print(f"<message>: {e}"); return <value>\<close>.
\<close>

definition except_return :: "string \<Rightarrow> 'a \<Rightarrow> exn \<Rightarrow> bool \<Rightarrow> 'a io" where
  "except_return message v e connected s = (Inr v, print (message @ str e) s)"

definition unknown_column :: "string \<Rightarrow> exn" where
  "unknown_column c = OperationalError (''(1054) Unknown column '' @ c)"

definition no_such_table :: "string \<Rightarrow> exn" where
  "no_such_table t = ProgrammingError (''(1146) Table '' @ t @ '' does not exist'')"

subsection \<open>Database.check\_table\_structure\<close>

definition describe :: "string \<Rightarrow> string list statement" where
  "describe table_name view =
     (if table_name = ''users'' then Inr (users_columns view, view)
      else if table_name = ''categories'' then Inr (categories_columns, view)
      else if table_name = ''expenses'' then Inr (expenses_columns view, view)
      else Inl (no_such_table table_name))"

definition check_table_structure_body :: "string \<Rightarrow> database \<Rightarrow> string list io" where
  "check_table_structure_body table_name view =
     io_bind (execute (describe table_name) view) (\<lambda>(columns, view1) s. (Inr columns, s))"

definition check_table_structure :: "string \<Rightarrow> string list io" where
  "check_table_structure table_name =
     with_connection (check_table_structure_body table_name)
       (except_return ''Error checking table structure: '' [])"

subsection \<open>UserModel\<close>

definition count_users_by_email :: "string \<Rightarrow> int statement" where
  "count_users_by_email email view =
     Inr (int (length (filter (\<lambda>u. u_email u = email) (users view))), view)"

definition insert_user :: "string option \<Rightarrow> string option \<Rightarrow> string \<Rightarrow> string \<Rightarrow> int statement" where
  "insert_user username name email password view =
     (let new_id = next_user_id view;
          row = \<lparr>u_id = new_id, u_username = username, u_name = name, u_email = email,
                 u_password = password\<rparr>
      in Inr (new_id, view\<lparr>users := users view @ [row], next_user_id := new_id + 1\<rparr>))"

definition select_user_by_email :: "string \<Rightarrow> user_row option statement" where
  "select_user_by_email email view = Inr (find (\<lambda>u. u_email u = email) (users view), view)"

text \<open>
  \<^verbatim>\<open>generate_password_hash\<close> and \<^verbatim>\<open>check_password_hash\<close> belong to Werkzeug, not to
  this repository: they are parameters. \<open>generate_password_hash\<close> stands for the library
  call with the salt it draws at this call.
\<close>

definition register_user_body ::
  "(string \<Rightarrow> string) \<Rightarrow> string \<Rightarrow> string \<Rightarrow> string \<Rightarrow> database \<Rightarrow> int io" where
  "register_user_body generate_password_hash name email password view =
     io_bind (execute (describe ''users'') view) (\<lambda>(available_columns, view1).
     io_bind (execute (count_users_by_email email) view1) (\<lambda>(existing, view2) s.
       if existing > 0 then
         (Inl (Exception (''User with email '' @ email @ '' already exists!'')),
          print (''User with email '' @ email @ '' already exists!'') s)
       else
         (let hashed_password = generate_password_hash password;
              sql = (if ''username'' \<in> set available_columns
                       then insert_user (Some name) None email hashed_password
                     else if ''name'' \<in> set available_columns
                       then insert_user None (Some name) email hashed_password
                     else insert_user None None email hashed_password)
          in io_bind (execute sql view2) (\<lambda>(lastrowid, view3).
             io_bind (commit view3) (\<lambda>_ s1. (Inr lastrowid, s1)))) s))"

definition register_user_except :: "exn \<Rightarrow> bool \<Rightarrow> int io" where
  "register_user_except e connected s =
     (let s1 = print (''Error registering user: '' @ str e) s in
      if connected then
        (case rollback s1 of (Inl e2, s2) \<Rightarrow> (Inl e2, s2) | (Inr _, s2) \<Rightarrow> (Inl e, s2))
      else (Inl e, s1))"

definition register_user :: "(string \<Rightarrow> string) \<Rightarrow> string \<Rightarrow> string \<Rightarrow> string \<Rightarrow> int io" where
  "register_user generate_password_hash name email password =
     with_connection (register_user_body generate_password_hash name email password)
       register_user_except"

definition get_user_by_email_body :: "string \<Rightarrow> database \<Rightarrow> user_row option io" where
  "get_user_by_email_body email view =
     io_bind (execute (describe ''users'') view) (\<lambda>(available_columns, view1).
     io_bind (execute (select_user_by_email email) view1) (\<lambda>(user, view2) s. (Inr user, s)))"

definition get_user_by_email :: "string \<Rightarrow> user_row option io" where
  "get_user_by_email email =
     with_connection (get_user_by_email_body email) (except_return ''Error fetching user: '' None)"

definition validate_login ::
  "(string \<Rightarrow> string \<Rightarrow> bool) \<Rightarrow> string \<Rightarrow> string \<Rightarrow> user_row option io" where
  "validate_login check_password_hash email password s =
     (case get_user_by_email email s of
        (Inl e, s1) \<Rightarrow> (Inl e, s1)
      | (Inr (Some user), s1) \<Rightarrow>
          if check_password_hash (u_password user) password then (Inr (Some user), s1)
          else (Inr None, print ''Password mismatch!'' s1)
      | (Inr None, s1) \<Rightarrow> (Inr None, print ''User not found!'' s1))"

subsection \<open>ExpenseModel: table structure\<close>

definition get_current_user_id :: "state \<Rightarrow> int option" where
  "get_current_user_id s = user_id (session s)"

definition truthy :: "int option \<Rightarrow> bool" where
  "truthy v = (case v of None \<Rightarrow> False | Some n \<Rightarrow> n \<noteq> 0)"

definition detect_date_column :: "string list \<Rightarrow> string" where
  "detect_date_column available_columns =
     (case find (\<lambda>col_name. col_name \<in> set available_columns)
             [''expense_date'', ''date'', ''created_at'', ''date_created'', ''transaction_date''] of
        Some col_name \<Rightarrow> col_name
      | None \<Rightarrow> (case available_columns of c # _ \<Rightarrow> c | [] \<Rightarrow> ''date''))"

definition default_structure :: table_structure where
  "default_structure =
     \<lparr>all_columns = [''id'', ''user_id'', ''category_id'', ''amount'', ''description'', ''date'',
                      ''created_at''],
      has_title = False, has_name = False, has_description = True, has_user_id = True,
      date_column = ''date''\<rparr>"

definition get_table_structure_body :: "database \<Rightarrow> table_structure io" where
  "get_table_structure_body view =
     io_bind (execute (describe ''expenses'') view) (\<lambda>(available_columns, view1) s.
       (let st = \<lparr>all_columns = available_columns,
                  has_title = ''title'' \<in> set available_columns,
                  has_name = ''name'' \<in> set available_columns,
                  has_description = ''description'' \<in> set available_columns,
                  has_user_id = ''user_id'' \<in> set available_columns,
                  date_column = detect_date_column available_columns\<rparr>
        in (Inr st, s\<lparr>table_columns := Some st\<rparr>)))"

definition get_table_structure :: "table_structure io" where
  "get_table_structure s =
     (case table_columns s of
        Some cached \<Rightarrow> (Inr cached, s)
      | None \<Rightarrow>
          with_connection get_table_structure_body
            (except_return ''Error getting table structure: '' default_structure) s)"

subsection \<open>ExpenseModel: the SQL statements\<close>

fun check_columns :: "string list \<Rightarrow> string list \<Rightarrow> exn option" where
  "check_columns available [] = None"
| "check_columns available (c # cs) =
     (if c \<in> set available then check_columns available cs else Some (unknown_column c))"

text \<open>
  The value of the column the code uses as date column. The table always has
  \<^verbatim>\<open>expense_date\<close>, so \<open>detect_date_column\<close> never falls back to a column of another
  type; the default structure names \<^verbatim>\<open>date\<close>, which the table does not have, and a
  statement naming it raises before any value is read.
\<close>

definition date_value :: "string \<Rightarrow> expense_row \<Rightarrow> date option" where
  "date_value c e =
     (if c = ''expense_date'' then e_expense_date e
      else if c = ''created_at'' then Some (e_created_at e) else None)"

definition set_date_value :: "string \<Rightarrow> date \<Rightarrow> expense_row \<Rightarrow> expense_row" where
  "set_date_value c d e =
     (if c = ''expense_date'' then e\<lparr>e_expense_date := Some d\<rparr>
      else if c = ''created_at'' then e\<lparr>e_created_at := d\<rparr> else e)"

definition category_exists :: "database \<Rightarrow> int option \<Rightarrow> bool" where
  "category_exists view category_id =
     (case category_id of None \<Rightarrow> True | Some k \<Rightarrow> k \<in> set (map c_id (categories view)))"

definition foreign_key_fails :: exn where
  "foreign_key_fails = IntegrityError ''(1452) a foreign key constraint fails''"

definition insert_expense :: "string list \<Rightarrow> expense_row \<Rightarrow> string \<Rightarrow> date \<Rightarrow> int statement" where
  "insert_expense cols row date_col expense_date view =
     (case check_columns (expenses_columns view) (cols @ [date_col]) of
        Some e \<Rightarrow> Inl e
      | None \<Rightarrow>
          if \<not> category_exists view (e_category_id row) then Inl foreign_key_fails
          else
            (let new_id = next_expense_id view;
                 new = set_date_value date_col expense_date
                         (row\<lparr>e_id := new_id, e_created_at := now view\<rparr>)
             in Inr (new_id, view\<lparr>expenses := expenses view @ [new],
                                  next_expense_id := new_id + 1\<rparr>)))"

text \<open>
  \<^verbatim>\<open>cursor.rowcount\<close> after an UPDATE counts the rows the statement changed (PyMySQL
  does not set the found-rows flag), after a DELETE the rows it removed.
\<close>

definition update_expenses ::
  "string list \<Rightarrow> (expense_row \<Rightarrow> expense_row) \<Rightarrow> int option \<Rightarrow> int \<Rightarrow> int \<Rightarrow> int statement" where
  "update_expenses cols assign category_id expense_id uid view =
     (case check_columns (expenses_columns view) (cols @ [''id'', ''user_id'']) of
        Some e \<Rightarrow> Inl e
      | None \<Rightarrow>
          (let hit = (\<lambda>e. e_id e = expense_id \<and> e_user_id e = Some uid);
               changed = filter (\<lambda>e. hit e \<and> assign e \<noteq> e) (expenses view)
           in if changed \<noteq> [] \<and> \<not> category_exists view category_id then Inl foreign_key_fails
              else Inr (int (length changed),
                        view\<lparr>expenses := map (\<lambda>e. if hit e then assign e else e) (expenses view)\<rparr>)))"

definition delete_expenses :: "int \<Rightarrow> int \<Rightarrow> int statement" where
  "delete_expenses expense_id uid view =
     (case check_columns (expenses_columns view) [''id'', ''user_id''] of
        Some e \<Rightarrow> Inl e
      | None \<Rightarrow>
          (let hit = (\<lambda>e. e_id e = expense_id \<and> e_user_id e = Some uid)
           in Inr (int (length (filter hit (expenses view))),
                   view\<lparr>expenses := filter (\<lambda>e. \<not> hit e) (expenses view)\<rparr>)))"

text \<open>
  A row of a SELECT as the DictCursor returns it. For \<^verbatim>\<open>title\<close> and
  \<^verbatim>\<open>description\<close> the outer option says whether the key is in the dict (the column was
  selected), the inner one whether the value is NULL.
\<close>

record expense_dict =
  d_id :: int
  d_amount :: int
  d_expense_date :: "date option"
  d_title :: "string option option"
  d_description :: "string option option"
  d_category_name :: "string option"
  d_category_id :: "int option"

definition left_join :: "category_row list \<Rightarrow> expense_row \<Rightarrow> (expense_row \<times> category_row option) list" where
  "left_join cats e =
     (case filter (\<lambda>c. e_category_id e = Some (c_id c)) cats of
        [] \<Rightarrow> [(e, None)]
      | cs \<Rightarrow> map (\<lambda>c. (e, Some c)) cs)"

definition order_by_desc :: "('a \<Rightarrow> 'k::linorder) \<Rightarrow> 'a list \<Rightarrow> 'a list" where
  "order_by_desc key xs = rev (sort_key key (rev xs))"

definition select_fields ::
  "table_structure \<Rightarrow> bool \<Rightarrow> expense_row \<times> category_row option \<Rightarrow> expense_dict" where
  "select_fields st category_of_expense ec =
     (case ec of (e, c) \<Rightarrow>
        \<lparr>d_id = e_id e, d_amount = e_amount e,
         d_expense_date = date_value (date_column st) e,
         d_title = (if has_title st then Some (e_title e) else None),
         d_description = (if has_description st then Some (e_description e) else None),
         d_category_name = map_option c_name c,
         d_category_id = (if category_of_expense then e_category_id e else map_option c_id c)\<rparr>)"

definition select_expenses ::
  "table_structure \<Rightarrow> bool \<Rightarrow> bool \<Rightarrow> (expense_row \<Rightarrow> bool) \<Rightarrow> expense_dict list statement" where
  "select_expenses st category_of_expense ordered cond view =
     (case check_columns (expenses_columns view)
             ([''id'', ''amount'', date_column st]
               @ (if has_title st then [''title''] else [])
               @ (if has_description st then [''description''] else [])
               @ [''category_id'', ''user_id'']) of
        Some e \<Rightarrow> Inl e
      | None \<Rightarrow>
          (let joined = concat (map (left_join (categories view)) (filter cond (expenses view)));
               sorted = (if ordered then order_by_desc (\<lambda>ec. date_value (date_column st) (fst ec)) joined
                         else joined)
           in Inr (map (select_fields st category_of_expense) sorted, view)))"

definition limit_clause :: "int option \<Rightarrow> 'a list statement \<Rightarrow> 'a list statement" where
  "limit_clause limit stmt view =
     (if truthy limit then
        (if the limit < 0 then Inl (ProgrammingError ''(1064) SQL syntax error'')
         else (case stmt view of
                 Inl e \<Rightarrow> Inl e
               | Inr (rows, view1) \<Rightarrow> Inr (take (nat (the limit)) rows, view1)))
      else stmt view)"

definition sum_amount :: "string list \<Rightarrow> (expense_row \<Rightarrow> bool) \<Rightarrow> int statement" where
  "sum_amount cols cond view =
     (case check_columns (expenses_columns view) cols of
        Some e \<Rightarrow> Inl e
      | None \<Rightarrow> Inr (sum_list (map e_amount (filter cond (expenses view))), view))"

record category_dict =
  g_category_name :: string
  g_total_amount :: int
  g_count :: int

text \<open>
  The statement of \<^verbatim>\<open>get_expenses_by_category\<close>: one group for each category row
  (\<^verbatim>\<open>GROUP BY c.id, c.name\<close>, with \<^verbatim>\<open>id\<close> the primary key), holding the user's
  expenses of that category.
\<close>

definition category_group :: "int \<Rightarrow> expense_row list \<Rightarrow> category_row \<Rightarrow> category_dict" where
  "category_group uid es c =
     (let joined = filter (\<lambda>e. e_category_id e = Some (c_id c) \<and> e_user_id e = Some uid) es
      in \<lparr>g_category_name = c_name c, g_total_amount = sum_list (map e_amount joined),
          g_count = int (length joined)\<rparr>)"

definition category_totals :: "int \<Rightarrow> category_dict list statement" where
  "category_totals uid view =
     (case check_columns (expenses_columns view) [''amount'', ''id'', ''category_id'', ''user_id''] of
        Some e \<Rightarrow> Inl e
      | None \<Rightarrow>
          Inr (order_by_desc g_total_amount
                 (filter (\<lambda>g. g_total_amount g > 0)
                    (map (category_group uid (expenses view)) (categories view))), view))"

subsection \<open>ExpenseModel: the methods\<close>

text \<open>
  \<^verbatim>\<open>safe_float\<close> receives what PyMySQL returns for a DECIMAL value: \<^verbatim>\<open>None\<close> or a
  \<^verbatim>\<open>Decimal\<close>. Its branches for int, float and other values are not reached.
\<close>

definition safe_float :: "int option \<Rightarrow> int" where
  "safe_float v = (case v of None \<Rightarrow> 0 | Some d \<Rightarrow> d)"

definition is_space :: "char \<Rightarrow> bool" where
  "is_space c = (c \<in> set [CHR '' '', CHR 0x09, CHR 0x0A, CHR 0x0B, CHR 0x0C, CHR 0x0D,
                            CHR 0x1C, CHR 0x1D, CHR 0x1E, CHR 0x1F])"

definition strip :: "string \<Rightarrow> string" where
  "strip s = rev (dropWhile is_space (rev (dropWhile is_space s)))"


text \<open>
  The body of the loop over the fetched rows. \<open>shorten\<close> is \<open>True\<close> in
  \<^verbatim>\<open>get_all_expenses\<close> and \<^verbatim>\<open>get_expenses_by_date_range\<close>, which cut a title taken
  from the description at 30 characters, and \<open>False\<close> in \<^verbatim>\<open>get_expense_by_id\<close>.
\<close>

definition format_expense :: "bool \<Rightarrow> table_structure \<Rightarrow> expense_dict \<Rightarrow> expense_dict" where
  "format_expense shorten st expense0 =
     (let expense = expense0\<lparr>d_amount := safe_float (Some (d_amount expense0))\<rparr>;
          desc = (case d_description expense of Some (Some d) \<Rightarrow> d | _ \<Rightarrow> [])
      in if has_title st then
           expense\<lparr>d_title := Some (case d_title expense of Some t \<Rightarrow> t | None \<Rightarrow> Some ''Expense'')\<rparr>
         else if desc \<noteq> [] then
           (if CHR '':'' \<in> set desc then
              expense\<lparr>d_title := Some (Some (strip (takeWhile (\<lambda>c. c \<noteq> CHR '':'') desc))),
                      d_description := Some (Some (strip (drop 1 (dropWhile (\<lambda>c. c \<noteq> CHR '':'') desc))))\<rparr>
            else
              expense\<lparr>d_title := Some (Some (if shorten \<and> length desc > 30 then take 30 desc @ ''...''
                                              else desc))\<rparr>)
         else
           expense\<lparr>d_title := Some (d_category_name expense),
                   d_description := Some (case d_description expense of Some v \<Rightarrow> v | None \<Rightarrow> Some [])\<rparr>)"

definition add_expense_sql ::
  "table_structure \<Rightarrow> int \<Rightarrow> string \<Rightarrow> int \<Rightarrow> int option \<Rightarrow> string \<Rightarrow> date \<Rightarrow> int statement" where
  "add_expense_sql st current_user_id title amount category_id description expense_date =
     (let row = \<lparr>e_id = 0, e_user_id = Some current_user_id, e_title = None,
                 e_category_id = category_id, e_amount = amount, e_description = None,
                 e_expense_date = None, e_created_at = 0\<rparr>
      in if has_title st \<and> has_description st then
           insert_expense [''user_id'', ''title'', ''category_id'', ''amount'', ''description'']
             (row\<lparr>e_title := Some title, e_description := Some description\<rparr>)
             (date_column st) expense_date
         else if has_description st then
           (let full_description = (if description \<noteq> [] then title @ '': '' @ description else title)
            in insert_expense [''user_id'', ''category_id'', ''amount'', ''description'']
                 (row\<lparr>e_description := Some full_description\<rparr>) (date_column st) expense_date)
         else
           insert_expense [''user_id'', ''category_id'', ''amount''] row (date_column st) expense_date)"

definition add_expense_except :: "exn \<Rightarrow> bool \<Rightarrow> int option io" where
  "add_expense_except e connected s =
     (let s1 = print (''Error adding expense: '' @ str e) s in
      if connected then
        (case rollback s1 of (Inl e2, s2) \<Rightarrow> (Inl e2, s2) | (Inr _, s2) \<Rightarrow> (Inr None, s2))
      else (Inr None, s1))"

definition add_expense_body ::
  "table_structure \<Rightarrow> int \<Rightarrow> string \<Rightarrow> int \<Rightarrow> int option \<Rightarrow> string \<Rightarrow> date \<Rightarrow> database
     \<Rightarrow> int option io" where
  "add_expense_body st current_user_id title amount category_id description expense_date view =
     io_bind (execute (add_expense_sql st current_user_id title amount category_id description
                         expense_date) view)
       (\<lambda>(lastrowid, view1). io_bind (commit view1) (\<lambda>_ s. (Inr (Some lastrowid), s)))"

definition add_expense :: "string \<Rightarrow> int \<Rightarrow> int option \<Rightarrow> string \<Rightarrow> date \<Rightarrow> int option io" where
  "add_expense title amount category_id description expense_date s =
     (case get_table_structure s of
        (Inl e, s1) \<Rightarrow> add_expense_except e False s1
      | (Inr st, s1) \<Rightarrow>
          (let current_user_id = get_current_user_id s1 in
           if \<not> truthy current_user_id then (Inr None, print ''No user logged in!'' s1)
           else
             with_connection
               (add_expense_body st (the current_user_id) title amount category_id description
                  expense_date)
               add_expense_except s1))"

definition get_all_expenses_body ::
  "table_structure \<Rightarrow> int option \<Rightarrow> int \<Rightarrow> database \<Rightarrow> expense_dict list io" where
  "get_all_expenses_body st limit current_user_id view =
     io_bind
       (execute (limit_clause limit
          (select_expenses st False True (\<lambda>e. e_user_id e = Some current_user_id))) view)
       (\<lambda>(expenses, view1) s. (Inr (map (format_expense True st) expenses), s))"

definition get_all_expenses :: "int option \<Rightarrow> expense_dict list io" where
  "get_all_expenses limit s =
     (case get_table_structure s of
        (Inl e, s1) \<Rightarrow> except_return ''Error getting expenses: '' [] e False s1
      | (Inr st, s1) \<Rightarrow>
          (let current_user_id = get_current_user_id s1 in
           if \<not> truthy current_user_id then (Inr [], print ''No user logged in!'' s1)
           else
             with_connection (get_all_expenses_body st limit (the current_user_id))
               (except_return ''Error getting expenses: '' []) s1))"

definition get_expense_by_id_body ::
  "table_structure \<Rightarrow> int \<Rightarrow> int \<Rightarrow> database \<Rightarrow> expense_dict option io" where
  "get_expense_by_id_body st expense_id current_user_id view =
     io_bind
       (execute (select_expenses st True False
          (\<lambda>e. e_id e = expense_id \<and> e_user_id e = Some current_user_id)) view)
       (\<lambda>(rows, view1) s.
          (Inr (case rows of [] \<Rightarrow> None
                | expense # _ \<Rightarrow> Some (format_expense False st expense)), s))"

definition get_expense_by_id :: "int \<Rightarrow> expense_dict option io" where
  "get_expense_by_id expense_id s =
     (case get_table_structure s of
        (Inl e, s1) \<Rightarrow> except_return ''Error getting expense: '' None e False s1
      | (Inr st, s1) \<Rightarrow>
          (let current_user_id = get_current_user_id s1 in
           if \<not> truthy current_user_id then (Inr None, print ''No user logged in!'' s1)
           else
             with_connection (get_expense_by_id_body st expense_id (the current_user_id))
               (except_return ''Error getting expense: '' None) s1))"

definition update_expense_sql ::
  "table_structure \<Rightarrow> int \<Rightarrow> int \<Rightarrow> string \<Rightarrow> int \<Rightarrow> int option \<Rightarrow> string \<Rightarrow> date \<Rightarrow> int statement" where
  "update_expense_sql st current_user_id expense_id title amount category_id description expense_date =
     (if has_title st \<and> has_description st then
        update_expenses [''title'', ''amount'', ''category_id'', ''description'', date_column st]
          (\<lambda>e. set_date_value (date_column st) expense_date
                  (e\<lparr>e_title := Some title, e_amount := amount, e_category_id := category_id,
                     e_description := Some description\<rparr>))
          category_id expense_id current_user_id
      else if has_description st then
        (let full_description = (if description \<noteq> [] then title @ '': '' @ description else title)
         in update_expenses [''amount'', ''category_id'', ''description'', date_column st]
              (\<lambda>e. set_date_value (date_column st) expense_date
                      (e\<lparr>e_amount := amount, e_category_id := category_id,
                         e_description := Some full_description\<rparr>))
              category_id expense_id current_user_id)
      else
        update_expenses [''amount'', ''category_id'', date_column st]
          (\<lambda>e. set_date_value (date_column st) expense_date
                  (e\<lparr>e_amount := amount, e_category_id := category_id\<rparr>))
          category_id expense_id current_user_id)"

text \<open>
  The with-block of \<^verbatim>\<open>update_expense\<close> and of \<^verbatim>\<open>delete_expense\<close>: execute, commit,
  \<^verbatim>\<open>return cursor.rowcount > 0\<close>.
\<close>

definition write_body :: "int statement \<Rightarrow> database \<Rightarrow> bool io" where
  "write_body sql view =
     io_bind (execute sql view)
       (\<lambda>(rowcount, view1). io_bind (commit view1) (\<lambda>_ s. (Inr (rowcount > 0), s)))"

definition update_expense ::
  "int \<Rightarrow> string \<Rightarrow> int \<Rightarrow> int option \<Rightarrow> string \<Rightarrow> date \<Rightarrow> bool io" where
  "update_expense expense_id title amount category_id description expense_date s =
     (case get_table_structure s of
        (Inl e, s1) \<Rightarrow> except_return ''Error updating expense: '' False e False s1
      | (Inr st, s1) \<Rightarrow>
          (let current_user_id = get_current_user_id s1 in
           if \<not> truthy current_user_id then (Inr False, print ''No user logged in!'' s1)
           else
             with_connection
               (write_body (update_expense_sql st (the current_user_id) expense_id title amount
                              category_id description expense_date))
               (except_return ''Error updating expense: '' False) s1))"

definition delete_expense :: "int \<Rightarrow> bool io" where
  "delete_expense expense_id s =
     (let current_user_id = get_current_user_id s in
      if \<not> truthy current_user_id then (Inr False, print ''No user logged in!'' s)
      else
        with_connection (write_body (delete_expenses expense_id (the current_user_id)))
          (except_return ''Error deleting expense: '' False) s)"

definition between :: "date option \<Rightarrow> date \<Rightarrow> date \<Rightarrow> bool" where
  "between v lo hi = (case v of None \<Rightarrow> False | Some d \<Rightarrow> lo \<le> d \<and> d \<le> hi)"

definition get_expenses_by_date_range_body ::
  "table_structure \<Rightarrow> date \<Rightarrow> date \<Rightarrow> int \<Rightarrow> database \<Rightarrow> expense_dict list io" where
  "get_expenses_by_date_range_body st start_date end_date current_user_id view =
     io_bind
       (execute (select_expenses st False True
          (\<lambda>e. between (date_value (date_column st) e) start_date end_date
                 \<and> e_user_id e = Some current_user_id)) view)
       (\<lambda>(expenses, view1) s. (Inr (map (format_expense True st) expenses), s))"

definition get_expenses_by_date_range :: "date \<Rightarrow> date \<Rightarrow> expense_dict list io" where
  "get_expenses_by_date_range start_date end_date s =
     (case get_table_structure s of
        (Inl e, s1) \<Rightarrow> except_return ''Error getting expenses by date range: '' [] e False s1
      | (Inr st, s1) \<Rightarrow>
          (let current_user_id = get_current_user_id s1 in
           if \<not> truthy current_user_id then (Inr [], print ''No user logged in!'' s1)
           else
             with_connection
               (get_expenses_by_date_range_body st start_date end_date (the current_user_id))
               (except_return ''Error getting expenses by date range: '' []) s1))"

text \<open>
  A date argument is \<^verbatim>\<open>None\<close> or a date (a \<^verbatim>\<open>date\<close> object or a non-empty
  \<^verbatim>\<open>'YYYY-MM-DD'\<close> string, as the routes pass them); a date is truthy.
\<close>

definition get_total_expense_body ::
  "table_structure \<Rightarrow> date option \<Rightarrow> date option \<Rightarrow> int \<Rightarrow> database \<Rightarrow> int io" where
  "get_total_expense_body st start_date end_date current_user_id view =
     io_bind
       (execute
          (if start_date \<noteq> None \<and> end_date \<noteq> None then
             sum_amount [''amount'', date_column st, ''user_id'']
               (\<lambda>e. between (date_value (date_column st) e) (the start_date) (the end_date)
                      \<and> e_user_id e = Some current_user_id)
           else
             sum_amount [''amount'', ''user_id''] (\<lambda>e. e_user_id e = Some current_user_id))
          view)
       (\<lambda>(total, view1) s. (Inr (if total \<noteq> 0 then safe_float (Some total) else 0), s))"

definition get_total_expense :: "date option \<Rightarrow> date option \<Rightarrow> int io" where
  "get_total_expense start_date end_date s =
     (case get_table_structure s of
        (Inl e, s1) \<Rightarrow> except_return ''Error getting total expense: '' 0 e False s1
      | (Inr st, s1) \<Rightarrow>
          (let current_user_id = get_current_user_id s1 in
           if \<not> truthy current_user_id then (Inr 0, print ''No user logged in!'' s1)
           else
             with_connection (get_total_expense_body st start_date end_date (the current_user_id))
               (except_return ''Error getting total expense: '' 0) s1))"

definition get_expenses_by_category_body :: "int \<Rightarrow> database \<Rightarrow> category_dict list io" where
  "get_expenses_by_category_body current_user_id view =
     io_bind (execute (category_totals current_user_id) view)
       (\<lambda>(category_expenses, view1) s.
          (Inr (map (\<lambda>category. category\<lparr>g_total_amount :=
                       safe_float (Some (g_total_amount category))\<rparr>) category_expenses), s))"

definition get_expenses_by_category :: "category_dict list io" where
  "get_expenses_by_category s =
     (let current_user_id = get_current_user_id s in
      if \<not> truthy current_user_id then (Inr [], print ''No user logged in!'' s)
      else
        with_connection (get_expenses_by_category_body (the current_user_id))
          (except_return ''Error getting expenses by category: '' []) s)"

subsection \<open>CategoryModel\<close>

definition select_categories :: "category_row list statement" where
  "select_categories view = Inr (sort_key c_name (categories view), view)"

definition insert_category :: "string \<Rightarrow> string option \<Rightarrow> int statement" where
  "insert_category name description view =
     (if name \<in> set (map c_name (categories view)) then
        Inl (IntegrityError ''(1062) Duplicate entry for key name'')
      else
        (let new_id = next_category_id view
         in Inr (new_id,
                 view\<lparr>categories := categories view
                         @ [\<lparr>c_id = new_id, c_name = name, c_description = description\<rparr>],
                      next_category_id := new_id + 1\<rparr>)))"

definition get_all_categories_body :: "database \<Rightarrow> category_row list io" where
  "get_all_categories_body view =
     io_bind (execute select_categories view) (\<lambda>(rows, view1) s. (Inr rows, s))"

definition get_all_categories :: "category_row list io" where
  "get_all_categories =
     with_connection get_all_categories_body (except_return ''Error getting categories: '' [])"

definition add_category_body :: "string \<Rightarrow> string option \<Rightarrow> database \<Rightarrow> int option io" where
  "add_category_body name description view =
     io_bind (execute (insert_category name description) view)
       (\<lambda>(lastrowid, view1). io_bind (commit view1) (\<lambda>_ s. (Inr (Some lastrowid), s)))"

definition add_category :: "string \<Rightarrow> string option \<Rightarrow> int option io" where
  "add_category name description =
     with_connection (add_category_body name description)
       (except_return ''Error adding category: '' None)"

subsection \<open>The register and login routes\<close>

datatype http_method = GET | POST









subsection \<open>Example states\<close>

text \<open>
  Two users, two categories and three expenses; the table has the columns of the
  documented schema. \<open>example_hash\<close> stands for one run of the hashing library.
\<close>

definition example_hash :: "string \<Rightarrow> string" where
  "example_hash password = ''pbkdf2:sha256$salt$'' @ rev password"


definition db0 :: database where
  "db0 =
     \<lparr>users =
        [\<lparr>u_id = 1, u_username = Some ''ann'', u_name = None, u_email = ''ann@x.org'',
          u_password = example_hash ''secret1''\<rparr>,
         \<lparr>u_id = 2, u_username = Some ''bob'', u_name = None, u_email = ''bob@x.org'',
          u_password = example_hash ''secret2''\<rparr>],
      users_has_username = True, users_has_name = False, next_user_id = 3,
      categories =
        [\<lparr>c_id = 1, c_name = ''Food'', c_description = None\<rparr>,
         \<lparr>c_id = 2, c_name = ''Travel'', c_description = None\<rparr>],
      next_category_id = 3,
      expenses =
        [\<lparr>e_id = 1, e_user_id = Some 1, e_title = Some ''Lunch'', e_category_id = Some 1,
          e_amount = 1250, e_description = Some [], e_expense_date = Some 10, e_created_at = 10\<rparr>,
         \<lparr>e_id = 2, e_user_id = Some 2, e_title = Some ''Taxi'', e_category_id = Some 2,
          e_amount = 900, e_description = Some [], e_expense_date = Some 11, e_created_at = 11\<rparr>,
         \<lparr>e_id = 3, e_user_id = Some 1, e_title = Some ''Train'', e_category_id = Some 2,
          e_amount = 400, e_description = Some [], e_expense_date = Some 40, e_created_at = 40\<rparr>],
      expenses_has_user_id = True, expenses_has_title = True, expenses_has_description = True,
      next_expense_id = 4, now = 50\<rparr>"

definition anonymous :: session where
  "anonymous = \<lparr>user_id = None, user_name = None, user_email = None, permanent = False,
                 flashes = []\<rparr>"

definition state0 :: "int option \<Rightarrow> bool list \<Rightarrow> state" where
  "state0 uid schedule =
     \<lparr>stored = db0, faults = schedule, open_conns = 0, console = [],
      session = anonymous\<lparr>user_id := uid\<rparr>, table_columns = None\<rparr>"

subsection \<open>The with-block of the reading methods\<close>

text \<open>
  The reading methods of ExpenseModel have one shape: execute one SELECT, post-process the
  fetched rows, return. \<open>read_body\<close> names that shape; \<open>read_bodies\<close> below shows that the
  bodies of the methods are instances of it.
\<close>

definition read_body :: "'r statement \<Rightarrow> ('r \<Rightarrow> 'a) \<Rightarrow> database \<Rightarrow> 'a io" where
  "read_body stmt g view = io_bind (execute stmt view) (\<lambda>(rows, view1) s. (Inr (g rows), s))"

subsection \<open>Fields an operation leaves unchanged\<close>

definition keeps :: "(state \<Rightarrow> 'x) \<Rightarrow> 'a io \<Rightarrow> bool" where
  "keeps f m = (\<forall>s. f (snd (m s)) = f s)"

section \<open>Properties\<close>

subsection \<open>What an operation leaves unchanged\<close>

lemma keepsD: "keeps f m \<Longrightarrow> f (snd (m s)) = f s"
  by (simp add: keeps_def)

lemma keepsD2: "keeps f m \<Longrightarrow> m s = (r, s') \<Longrightarrow> f s' = f s"
  by (metis keepsD snd_conv)

lemma keeps_unit: "keeps f (\<lambda>s. (r, s))"
  by (simp add: keeps_def)

lemma keeps_bind: "keeps f m \<Longrightarrow> (\<And>v. keeps f (g v)) \<Longrightarrow> keeps f (io_bind m g)"
  unfolding keeps_def io_bind_def
  by (auto split: prod.splits sum.splits) (metis snd_conv)+

lemma keeps_case_prod: "(\<And>a b. keeps f (g a b)) \<Longrightarrow> keeps f (case v of (a, b) \<Rightarrow> g a b)"
  by (cases v) simp

lemma keeps_if: "keeps f X \<Longrightarrow> keeps f Y \<Longrightarrow> keeps f (\<lambda>s. if b then X s else Y s)"
  by (simp add: keeps_def)

lemma keeps_round_trip:
  "(\<And>s fs. f (s\<lparr>faults := fs\<rparr>) = f s) \<Longrightarrow> keeps f (round_trip e)"
  by (auto simp: keeps_def round_trip_def split: list.splits)

lemma keeps_execute:
  "(\<And>s fs. f (s\<lparr>faults := fs\<rparr>) = f s) \<Longrightarrow> keeps f (execute stmt view)"
  using keeps_round_trip[of f]
  by (auto simp: keeps_def execute_def split: prod.splits sum.splits) (metis snd_conv)+

lemma keeps_commit:
  "(\<And>s fs. f (s\<lparr>faults := fs\<rparr>) = f s) \<Longrightarrow> (\<And>s d. f (s\<lparr>stored := d\<rparr>) = f s)
     \<Longrightarrow> keeps f (commit view)"
  by (auto simp: keeps_def commit_def round_trip_def split: list.splits)

lemma keeps_print: "(\<And>s c. f (s\<lparr>console := c\<rparr>) = f s) \<Longrightarrow> keeps f (\<lambda>s. (r, print l s))"
  by (simp add: keeps_def print_def)

lemma keeps_cache:
  "(\<And>s c. f (s\<lparr>table_columns := c\<rparr>) = f s) \<Longrightarrow> keeps f (\<lambda>s. (r, s\<lparr>table_columns := c\<rparr>))"
  by (simp add: keeps_def)

lemma keeps_except_return:
  "(\<And>s c. f (s\<lparr>console := c\<rparr>) = f s) \<Longrightarrow> keeps f (except_return m v e c)"
  by (simp add: keeps_def except_return_def print_def)

lemma keeps_rollback_except:
  assumes "\<And>s fs. f (s\<lparr>faults := fs\<rparr>) = f s" "\<And>s c. f (s\<lparr>console := c\<rparr>) = f s"
  shows "keeps f (add_expense_except e c)" "keeps f (register_user_except e c)"
  using assms
  by (auto simp: keeps_def add_expense_except_def register_user_except_def rollback_def
        round_trip_def print_def Let_def split: list.splits)

lemmas keeps_intros = keeps_bind keeps_case_prod keeps_execute keeps_commit keeps_except_return
  keeps_rollback_except keeps_if keeps_print keeps_cache keeps_unit

subsection \<open>Connections are released\<close>

lemma open_conns_with_connection:
  assumes "\<And>view. keeps open_conns (body view)" and "\<And>e c. keeps open_conns (handler e c)"
  shows "open_conns (snd (with_connection body handler s)) = open_conns s"
proof -
  obtain r s1 where g: "get_connection s = (r, s1)" by (cases "get_connection s")
  show ?thesis
  proof (cases r)
    case (Inl e)
    then have "open_conns s1 = open_conns s" using g
      by (auto simp: get_connection_def round_trip_def split: list.splits if_splits)
    then show ?thesis using g Inl assms(2)[of e False]
      by (simp add: with_connection_def keeps_def)
  next
    case (Inr view)
    then have o: "open_conns s1 = Suc (open_conns s)" using g
      by (auto simp: get_connection_def round_trip_def split: list.splits if_splits)
    obtain r2 s2 where b: "body view s1 = (r2, s2)" by (cases "body view s1")
    have o2: "open_conns s2 = Suc (open_conns s)" using keepsD2[OF assms(1) b] o by simp
    show ?thesis
    proof (cases r2)
      case (Inl e)
      obtain r3 s3 where h: "handler e True s2 = (r3, s3)" by (cases "handler e True s2")
      have "open_conns s3 = Suc (open_conns s)" using keepsD2[OF assms(2) h] o2 by simp
      then show ?thesis using g Inr b Inl h by (simp add: with_connection_def close_def)
    next
      case (Inr v)
      then show ?thesis using g \<open>r = Inr view\<close> b o2 by (simp add: with_connection_def close_def)
    qed
  qed
qed

lemma open_conns_check_table_structure_body: "keeps open_conns (check_table_structure_body t view)"
  unfolding check_table_structure_body_def by (intro keeps_intros) simp_all

lemma open_conns_register_user_body:
  "keeps open_conns (register_user_body gph name email password view)"
  unfolding register_user_body_def Let_def by (intro keeps_intros) simp_all

lemma open_conns_get_user_by_email_body: "keeps open_conns (get_user_by_email_body email view)"
  unfolding get_user_by_email_body_def by (intro keeps_intros) simp_all

lemma open_conns_get_table_structure_body: "keeps open_conns (get_table_structure_body view)"
  unfolding get_table_structure_body_def Let_def by (intro keeps_intros) simp_all

lemma open_conns_add_expense_body:
  "keeps open_conns (add_expense_body st uid title amount category_id description expense_date view)"
  unfolding add_expense_body_def by (intro keeps_intros) simp_all

lemma open_conns_get_all_expenses_body: "keeps open_conns (get_all_expenses_body st limit uid view)"
  unfolding get_all_expenses_body_def by (intro keeps_intros) simp_all

lemma open_conns_get_expense_by_id_body:
  "keeps open_conns (get_expense_by_id_body st expense_id uid view)"
  unfolding get_expense_by_id_body_def by (intro keeps_intros) simp_all

lemma open_conns_write_body: "keeps open_conns (write_body sql view)"
  unfolding write_body_def by (intro keeps_intros) simp_all

lemma open_conns_get_expenses_by_date_range_body:
  "keeps open_conns (get_expenses_by_date_range_body st start_date end_date uid view)"
  unfolding get_expenses_by_date_range_body_def by (intro keeps_intros) simp_all

lemma open_conns_get_total_expense_body:
  "keeps open_conns (get_total_expense_body st start_date end_date uid view)"
  unfolding get_total_expense_body_def by (intro keeps_intros) simp_all

lemma open_conns_get_expenses_by_category_body:
  "keeps open_conns (get_expenses_by_category_body uid view)"
  unfolding get_expenses_by_category_body_def by (intro keeps_intros) simp_all

lemma open_conns_get_all_categories_body: "keeps open_conns (get_all_categories_body view)"
  unfolding get_all_categories_body_def by (intro keeps_intros) simp_all

lemma open_conns_add_category_body: "keeps open_conns (add_category_body name description view)"
  unfolding add_category_body_def by (intro keeps_intros) simp_all

lemmas open_conns_bodies = open_conns_check_table_structure_body open_conns_register_user_body
  open_conns_get_user_by_email_body open_conns_get_table_structure_body
  open_conns_add_expense_body open_conns_get_all_expenses_body open_conns_get_expense_by_id_body
  open_conns_write_body open_conns_get_expenses_by_date_range_body
  open_conns_get_total_expense_body open_conns_get_expenses_by_category_body
  open_conns_get_all_categories_body open_conns_add_category_body

lemma open_conns_handlers:
  "keeps open_conns (except_return m v e c)"
  "keeps open_conns (add_expense_except e c)"
  "keeps open_conns (register_user_except e c)"
  by (intro keeps_intros; simp)+

lemmas open_conns_simps = open_conns_with_connection open_conns_bodies open_conns_handlers

lemma open_conns_get_table_structure: "open_conns (snd (get_table_structure s)) = open_conns s"
  by (simp add: get_table_structure_def open_conns_simps split: option.splits)

lemma open_conns_after_structure:
  assumes "\<And>e s1. open_conns (snd (A e s1)) = open_conns s1"
      and "\<And>st s1. open_conns (snd (B st s1)) = open_conns s1"
  shows "open_conns (snd (case get_table_structure s of
                            (Inl e, s1) \<Rightarrow> A e s1 | (Inr st, s1) \<Rightarrow> B st s1)) = open_conns s"
proof -
  obtain r s1 where g: "get_table_structure s = (r, s1)" by (cases "get_table_structure s")
  have "open_conns s1 = open_conns s" using open_conns_get_table_structure[of s] g by simp
  then show ?thesis using g assms by (cases r) simp_all
qed

lemma open_conns_user_model:
  "open_conns (snd (check_table_structure t s)) = open_conns s"
  "open_conns (snd (register_user gph name email password s)) = open_conns s"
  "open_conns (snd (get_user_by_email email s)) = open_conns s"
  "open_conns (snd (validate_login cph email password s)) = open_conns s"
proof -
  show "open_conns (snd (check_table_structure t s)) = open_conns s"
    by (simp add: check_table_structure_def open_conns_simps)
  show "open_conns (snd (register_user gph name email password s)) = open_conns s"
    by (simp add: register_user_def open_conns_simps)
  show g: "open_conns (snd (get_user_by_email email s)) = open_conns s"
    by (simp add: get_user_by_email_def open_conns_simps)
  show "open_conns (snd (validate_login cph email password s)) = open_conns s"
    using g by (auto simp: validate_login_def print_def split: prod.splits sum.splits option.splits)
qed

lemma open_conns_expense_model:
  "open_conns (snd (add_expense title amount category_id description expense_date s)) = open_conns s"
  "open_conns (snd (get_all_expenses limit s)) = open_conns s"
  "open_conns (snd (get_expense_by_id expense_id s)) = open_conns s"
  "open_conns (snd (update_expense expense_id title amount category_id description expense_date s))
     = open_conns s"
  "open_conns (snd (delete_expense expense_id s)) = open_conns s"
  "open_conns (snd (get_expenses_by_date_range start_date end_date s)) = open_conns s"
  "open_conns (snd (get_total_expense sd ed s)) = open_conns s"
  "open_conns (snd (get_expenses_by_category s)) = open_conns s"
proof -
  show "open_conns (snd (add_expense title amount category_id description expense_date s)) = open_conns s"
    unfolding add_expense_def
    by (rule open_conns_after_structure) (simp_all add: Let_def print_def keepsD open_conns_simps)
  show "open_conns (snd (get_all_expenses limit s)) = open_conns s"
    unfolding get_all_expenses_def
    by (rule open_conns_after_structure) (simp_all add: Let_def print_def keepsD open_conns_simps)
  show "open_conns (snd (get_expense_by_id expense_id s)) = open_conns s"
    unfolding get_expense_by_id_def
    by (rule open_conns_after_structure) (simp_all add: Let_def print_def keepsD open_conns_simps)
  show "open_conns (snd (update_expense expense_id title amount category_id description expense_date s))
          = open_conns s"
    unfolding update_expense_def
    by (rule open_conns_after_structure) (simp_all add: Let_def print_def keepsD open_conns_simps)
  show "open_conns (snd (delete_expense expense_id s)) = open_conns s"
    by (simp add: delete_expense_def Let_def print_def open_conns_simps)
  show "open_conns (snd (get_expenses_by_date_range start_date end_date s)) = open_conns s"
    unfolding get_expenses_by_date_range_def
    by (rule open_conns_after_structure) (simp_all add: Let_def print_def keepsD open_conns_simps)
  show "open_conns (snd (get_total_expense sd ed s)) = open_conns s"
    unfolding get_total_expense_def
    by (rule open_conns_after_structure) (simp_all add: Let_def print_def keepsD open_conns_simps)
  show "open_conns (snd (get_expenses_by_category s)) = open_conns s"
    by (simp add: get_expenses_by_category_def Let_def print_def open_conns_simps)
qed

lemma open_conns_category_model:
  "open_conns (snd (get_all_categories s)) = open_conns s"
  "open_conns (snd (add_category name description s)) = open_conns s"
  by (simp_all add: get_all_categories_def add_category_def open_conns_simps)

text \<open>
  C8. Every method of the data-access layer (\<^verbatim>\<open>models.py\<close>: Database, UserModel,
  ExpenseModel, CategoryModel) leaves as many connections open as it found, under every
  schedule of failures: the connection it opens is closed whether the method returns a
  value, returns its failure value or raises.
\<close>

theorem connection_released:
  "open_conns (snd (check_table_structure t s)) = open_conns s
   \<and> open_conns (snd (register_user gph name email password s)) = open_conns s
   \<and> open_conns (snd (get_user_by_email email s)) = open_conns s
   \<and> open_conns (snd (validate_login cph email password s)) = open_conns s
   \<and> open_conns (snd (get_table_structure s)) = open_conns s
   \<and> open_conns (snd (add_expense title amount category_id description expense_date s)) = open_conns s
   \<and> open_conns (snd (get_all_expenses limit s)) = open_conns s
   \<and> open_conns (snd (get_expense_by_id expense_id s)) = open_conns s
   \<and> open_conns (snd (update_expense expense_id title amount category_id description expense_date s))
       = open_conns s
   \<and> open_conns (snd (delete_expense expense_id s)) = open_conns s
   \<and> open_conns (snd (get_expenses_by_date_range start_date end_date s)) = open_conns s
   \<and> open_conns (snd (get_total_expense sd ed s)) = open_conns s
   \<and> open_conns (snd (get_expenses_by_category s)) = open_conns s
   \<and> open_conns (snd (get_all_categories s)) = open_conns s
   \<and> open_conns (snd (add_category cname cdescription s)) = open_conns s"
  by (simp only: open_conns_user_model open_conns_expense_model open_conns_category_model
        open_conns_get_table_structure simp_thms)

text \<open>
  An instance: the INSERT of \<^verbatim>\<open>add_expense\<close> succeeds, its commit and then its rollback
  fail, so the method raises; the duplicate registration raises as well. No connection stays
  open.
\<close>

theorem connection_released_witness:
  "open_conns (snd (add_expense ''Tea'' 300 (Some 1) ''green'' 12
                      (state0 (Some 1) [False, False, False, False, True, True]))) = 0
   \<and> open_conns (snd (register_user example_hash ''Ann'' ''ann@x.org'' ''secret9''
                        (state0 None []))) = 0"
  using connection_released[where s = "state0 (Some 1) [False, False, False, False, True, True]"
          and title = "''Tea''" and amount = 300 and category_id = "Some 1"
          and description = "''green''" and expense_date = 12]
        connection_released[where s = "state0 None []" and gph = example_hash and name = "''Ann''"
          and email = "''ann@x.org''" and password = "''secret9''"]
  by (simp add: state0_def)

subsection \<open>The table structure lookup\<close>

lemma keeps_with_connection:
  assumes "\<And>s fs. f (s\<lparr>faults := fs\<rparr>) = f s" "\<And>s n. f (s\<lparr>open_conns := n\<rparr>) = f s"
    and "\<And>view. keeps f (body view)" and "\<And>e c. keeps f (handler e c)"
  shows "keeps f (with_connection body handler)"
proof -
  have "f (snd (with_connection body handler s)) = f s" for s
  proof -
    obtain r s1 where g: "get_connection s = (r, s1)" by (cases "get_connection s")
    have f1: "f s1 = f s" using g assms(1,2)
      by (auto simp: get_connection_def round_trip_def split: list.splits if_splits)
    show ?thesis
    proof (cases r)
      case (Inl e)
      then show ?thesis using g f1 keepsD[OF assms(4), of e False s1]
        by (simp add: with_connection_def)
    next
      case (Inr view)
      obtain r2 s2 where b: "body view s1 = (r2, s2)" by (cases "body view s1")
      have f2: "f s2 = f s" using keepsD2[OF assms(3) b] f1 by simp
      show ?thesis
      proof (cases r2)
        case (Inl e)
        obtain r3 s3 where h: "handler e True s2 = (r3, s3)" by (cases "handler e True s2")
        have "f s3 = f s" using keepsD2[OF assms(4) h] f2 by simp
        then show ?thesis using g Inr b Inl h assms(2) by (simp add: with_connection_def close_def)
      next
        case (Inr v)
        then show ?thesis using g \<open>r = Inr view\<close> b f2 assms(2)
          by (simp add: with_connection_def close_def)
      qed
    qed
  qed
  then show ?thesis by (simp add: keeps_def)
qed

lemma returns_with_connection:
  "\<exists>x. fst (with_connection body (except_return m v) s) = Inr x"
  by (auto simp: with_connection_def except_return_def split: prod.splits sum.splits)

lemma keeps_get_table_structure:
  assumes "\<And>s fs. f (s\<lparr>faults := fs\<rparr>) = f s" "\<And>s n. f (s\<lparr>open_conns := n\<rparr>) = f s"
     "\<And>s c. f (s\<lparr>console := c\<rparr>) = f s" "\<And>s c. f (s\<lparr>table_columns := c\<rparr>) = f s"
  shows "keeps f get_table_structure"
proof -
  have b: "keeps f (get_table_structure_body view)" for view
    unfolding get_table_structure_body_def Let_def by (intro keeps_intros) (simp_all add: assms)
  have "keeps f (with_connection get_table_structure_body
            (except_return ''Error getting table structure: '' default_structure))"
    by (intro keeps_with_connection b keeps_except_return) (simp_all add: assms)
  then show ?thesis
    by (simp add: keeps_def get_table_structure_def split: option.splits)
qed

lemma get_table_structure_returns: "\<exists>st. fst (get_table_structure s) = Inr st"
  using returns_with_connection[of get_table_structure_body]
  by (simp add: get_table_structure_def split: option.splits)

lemma get_table_structure_cases:
  obtains st s1 where "get_table_structure s = (Inr st, s1)" "stored s1 = stored s"
    "session s1 = session s"
proof -
  obtain st where "fst (get_table_structure s) = Inr st" using get_table_structure_returns by blast
  then have "get_table_structure s = (Inr st, snd (get_table_structure s))"
    by (metis prod.collapse)
  moreover have "stored (snd (get_table_structure s)) = stored s"
    by (rule keepsD[OF keeps_get_table_structure]) simp_all
  moreover have "session (snd (get_table_structure s)) = session s"
    by (rule keepsD[OF keeps_get_table_structure]) simp_all
  ultimately show ?thesis using that by blast
qed

subsection \<open>No authenticated user\<close>

text \<open>
  C10. When the session holds no user id (or a falsy one), every ExpenseModel method
  returns its neutral value: \<^verbatim>\<open>None\<close> for \<^verbatim>\<open>add_expense\<close> and
  \<^verbatim>\<open>get_expense_by_id\<close>, the empty list for the three list methods, \<^verbatim>\<open>False\<close> for
  \<^verbatim>\<open>update_expense\<close> and \<^verbatim>\<open>delete_expense\<close>, zero for \<^verbatim>\<open>get_total_expense\<close>;
  and the committed tables are what they were, under every schedule of failures.
\<close>

theorem no_user_neutral_value:
  assumes "\<not> truthy (user_id (session s))"
  shows "fst (add_expense title amount category_id description expense_date s) = Inr None
     \<and> stored (snd (add_expense title amount category_id description expense_date s)) = stored s
     \<and> fst (get_expense_by_id expense_id s) = Inr None
     \<and> stored (snd (get_expense_by_id expense_id s)) = stored s
     \<and> fst (get_all_expenses limit s) = Inr []
     \<and> stored (snd (get_all_expenses limit s)) = stored s
     \<and> fst (get_expenses_by_date_range start_date end_date s) = Inr []
     \<and> stored (snd (get_expenses_by_date_range start_date end_date s)) = stored s
     \<and> fst (get_expenses_by_category s) = Inr []
     \<and> stored (snd (get_expenses_by_category s)) = stored s
     \<and> fst (update_expense expense_id title amount category_id description expense_date s) = Inr False
     \<and> stored (snd (update_expense expense_id title amount category_id description expense_date s))
         = stored s
     \<and> fst (delete_expense expense_id s) = Inr False
     \<and> stored (snd (delete_expense expense_id s)) = stored s
     \<and> fst (get_total_expense sd ed s) = Inr 0
     \<and> stored (snd (get_total_expense sd ed s)) = stored s"
proof -
  obtain st s1 where "get_table_structure s = (Inr st, s1)" "stored s1 = stored s"
    "session s1 = session s" by (rule get_table_structure_cases)
  then show ?thesis using assms
    by (simp add: add_expense_def get_expense_by_id_def get_all_expenses_def
          get_expenses_by_date_range_def get_expenses_by_category_def update_expense_def
          delete_expense_def get_total_expense_def get_current_user_id_def Let_def print_def)
qed

theorem no_user_neutral_value_witness:
  "fst (add_expense ''Tea'' 300 (Some 1) ''green'' 12 (state0 None [])) = Inr None
   \<and> stored (snd (add_expense ''Tea'' 300 (Some 1) ''green'' 12 (state0 None []))) = db0
   \<and> fst (delete_expense 1 (state0 (Some 0) [])) = Inr False
   \<and> stored (snd (delete_expense 1 (state0 (Some 0) []))) = db0
   \<and> fst (get_total_expense None None (state0 None [])) = Inr 0"
  using no_user_neutral_value[where s = "state0 None []" and title = "''Tea''" and amount = 300
          and category_id = "Some 1" and description = "''green''" and expense_date = 12
          and sd = None and ed = None]
        no_user_neutral_value[where s = "state0 (Some 0) []" and expense_id = 1]
  by (simp add: state0_def anonymous_def truthy_def)

subsection \<open>Updating or deleting an expense that is not the caller's\<close>

lemma write_noop:
  assumes "sql (stored s) = Inr (0, stored s) \<or> (\<exists>e. sql (stored s) = Inl e)"
  shows "fst (with_connection (write_body sql) (except_return m False) s) = Inr False
         \<and> stored (snd (with_connection (write_body sql) (except_return m False) s)) = stored s"
  using assms
  by (auto simp: with_connection_def write_body_def get_connection_def execute_def commit_def
        round_trip_def io_bind_def except_return_def close_def print_def
        split: list.splits)

lemma delete_expenses_noop:
  assumes "\<not> (\<exists>e\<in>set (expenses view). e_id e = expense_id \<and> e_user_id e = Some uid)"
  shows "delete_expenses expense_id uid view = Inr (0, view)
         \<or> (\<exists>e. delete_expenses expense_id uid view = Inl e)"
proof -
  have "filter (\<lambda>e. e_id e = expense_id \<and> e_user_id e = Some uid) (expenses view) = []"
    using assms by (auto simp: filter_empty_conv)
  moreover have "filter (\<lambda>e. \<not> (e_id e = expense_id \<and> e_user_id e = Some uid)) (expenses view)
                   = expenses view"
    using assms by (auto simp: filter_id_conv)
  ultimately show ?thesis
    by (simp add: delete_expenses_def Let_def split: option.splits)
qed

lemma update_expenses_noop:
  assumes "\<not> (\<exists>e\<in>set (expenses view). e_id e = expense_id \<and> e_user_id e = Some uid)"
  shows "update_expenses cols assign category_id expense_id uid view = Inr (0, view)
         \<or> (\<exists>e. update_expenses cols assign category_id expense_id uid view = Inl e)"
proof -
  have "filter (\<lambda>e. (e_id e = expense_id \<and> e_user_id e = Some uid) \<and> assign e \<noteq> e) (expenses view) = []"
    using assms by (auto simp: filter_empty_conv)
  moreover have "map (\<lambda>e. if e_id e = expense_id \<and> e_user_id e = Some uid then assign e else e)
                   (expenses view) = expenses view"
    using assms by (intro map_idI) auto
  ultimately show ?thesis
    by (simp add: update_expenses_def Let_def split: option.splits)
qed

lemma update_expense_sql_noop:
  assumes "\<not> (\<exists>e\<in>set (expenses view). e_id e = expense_id \<and> e_user_id e = Some uid)"
  shows "update_expense_sql st uid expense_id title amount category_id description expense_date view
           = Inr (0, view)
         \<or> (\<exists>e. update_expense_sql st uid expense_id title amount category_id description
                   expense_date view = Inl e)"
  unfolding update_expense_sql_def Let_def using update_expenses_noop[OF assms] by simp

text \<open>
  C4. When no stored expense has the given id together with the session user as owner
  (the id does not exist, or the row belongs to somebody else), \<^verbatim>\<open>update_expense\<close> and
  \<^verbatim>\<open>delete_expense\<close> return \<^verbatim>\<open>False\<close> and the committed tables are what they were:
  the statement matches no row, so \<^verbatim>\<open>rowcount\<close> is 0. This holds under every schedule
  of failures.
\<close>

theorem not_owned_is_noop:
  assumes "\<not> (\<exists>e\<in>set (expenses (stored s)). e_id e = expense_id
                \<and> (\<exists>u. user_id (session s) = Some u \<and> e_user_id e = Some u))"
  shows "fst (update_expense expense_id title amount category_id description expense_date s) = Inr False
     \<and> stored (snd (update_expense expense_id title amount category_id description expense_date s)) = stored s
     \<and> fst (delete_expense expense_id s) = Inr False
     \<and> stored (snd (delete_expense expense_id s)) = stored s"
proof -
  obtain st s1 where g: "get_table_structure s = (Inr st, s1)" "stored s1 = stored s"
    "session s1 = session s" by (rule get_table_structure_cases)
  have n: "\<not> (\<exists>e\<in>set (expenses (stored s1)). e_id e = expense_id \<and> e_user_id e = Some uid)"
    if "user_id (session s) = Some uid" for uid
    using assms that g(2) by auto
  have u: "fst (update_expense expense_id title amount category_id description expense_date s) = Inr False
     \<and> stored (snd (update_expense expense_id title amount category_id description expense_date s)) = stored s"
  proof (cases "truthy (user_id (session s))")
    case False
    then show ?thesis using g by (simp add: update_expense_def get_current_user_id_def Let_def print_def)
  next
    case True
    then obtain uid where uid: "user_id (session s) = Some uid" by (auto simp: truthy_def split: option.splits)
    have "fst (with_connection (write_body (update_expense_sql st uid expense_id title amount
                 category_id description expense_date)) (except_return ''Error updating expense: '' False) s1)
            = Inr False
          \<and> stored (snd (with_connection (write_body (update_expense_sql st uid expense_id title amount
                 category_id description expense_date)) (except_return ''Error updating expense: '' False) s1))
            = stored s1"
      by (rule write_noop) (rule update_expense_sql_noop[OF n[OF uid]])
    then show ?thesis
      using True g uid by (simp add: update_expense_def get_current_user_id_def Let_def)
  qed
  have d: "fst (delete_expense expense_id s) = Inr False \<and> stored (snd (delete_expense expense_id s)) = stored s"
  proof (cases "truthy (user_id (session s))")
    case False
    then show ?thesis by (simp add: delete_expense_def get_current_user_id_def Let_def print_def)
  next
    case True
    then obtain uid where uid: "user_id (session s) = Some uid" by (auto simp: truthy_def split: option.splits)
    have "\<not> (\<exists>e\<in>set (expenses (stored s)). e_id e = expense_id \<and> e_user_id e = Some uid)"
      using assms uid by auto
    then have "fst (with_connection (write_body (delete_expenses expense_id uid))
                 (except_return ''Error deleting expense: '' False) s) = Inr False
          \<and> stored (snd (with_connection (write_body (delete_expenses expense_id uid))
                 (except_return ''Error deleting expense: '' False) s)) = stored s"
      by (intro write_noop delete_expenses_noop)
    then show ?thesis using True uid by (simp add: delete_expense_def get_current_user_id_def Let_def)
  qed
  show ?thesis using u d by simp
qed

theorem not_owned_is_noop_witness:
  "fst (update_expense 2 ''Cab'' 1 (Some 1) [] 11 (state0 (Some 1) [])) = Inr False
   \<and> stored (snd (update_expense 2 ''Cab'' 1 (Some 1) [] 11 (state0 (Some 1) []))) = db0
   \<and> fst (delete_expense 2 (state0 (Some 1) [])) = Inr False
   \<and> stored (snd (delete_expense 2 (state0 (Some 1) []))) = db0
   \<and> fst (delete_expense 99 (state0 (Some 1) [])) = Inr False
   \<and> stored (snd (delete_expense 99 (state0 (Some 1) []))) = db0"
  using not_owned_is_noop[where s = "state0 (Some 1) []" and expense_id = 2 and title = "''Cab''"
          and amount = 1 and category_id = "Some 1" and description = "[]" and expense_date = 11]
        not_owned_is_noop[where s = "state0 (Some 1) []" and expense_id = 99]
  by (simp add: state0_def db0_def anonymous_def)

subsection \<open>Reads are scoped to the session user\<close>

lemma get_connection_cases:
  obtains (fails) e s1 where "get_connection s = (Inl e, s1)"
  | (connected) s1 where "get_connection s = (Inr (stored s), s1)" "stored s1 = stored s"
      "session s1 = session s" "faults s = [] \<longrightarrow> faults s1 = []"
  by (cases "faults s"; cases "hd (faults s)") (auto simp: get_connection_def round_trip_def)

lemma execute_cases:
  obtains (fails) e s1 where "execute stmt view s = (Inl e, s1)"
  | (runs) s1 where "execute stmt view s = (stmt view, s1)"
  by (cases "faults s"; cases "hd (faults s)") (auto simp: execute_def round_trip_def)

lemma execute_no_faults: "faults s = [] \<Longrightarrow> execute stmt view s = (stmt view, s)"
  by (simp add: execute_def round_trip_def)

lemma get_connection_no_faults:
  "faults s = [] \<Longrightarrow> get_connection s = (Inr (stored s), s\<lparr>open_conns := Suc (open_conns s)\<rparr>)"
  by (simp add: get_connection_def round_trip_def)

lemma read_cases:
  assumes "with_connection (read_body stmt g) (except_return m v) s = (r, s')"
  shows "r = Inr v \<or> (\<exists>rows view1. stmt (stored s) = Inr (rows, view1) \<and> r = Inr (g rows))"
proof (cases s rule: get_connection_cases)
  case (fails e s1)
  then show ?thesis using assms by (simp add: with_connection_def except_return_def)
next
  case (connected s1)
  show ?thesis
  proof (cases stmt "stored s" s1 rule: execute_cases)
    case (fails e s2)
    then show ?thesis using assms connected
      by (simp add: with_connection_def read_body_def io_bind_def except_return_def)
  next
    case (runs s2)
    then show ?thesis using assms connected
      by (cases "stmt (stored s)")
         (auto simp: with_connection_def read_body_def io_bind_def except_return_def)
  qed
qed

lemma read_no_faults:
  assumes "faults s = []"
  shows "fst (with_connection (read_body stmt g) (except_return m v) s)
           = (case stmt (stored s) of Inl e \<Rightarrow> Inr v | Inr (rows, view1) \<Rightarrow> Inr (g rows))"
  using assms
  by (cases "stmt (stored s)")
     (auto simp: with_connection_def read_body_def io_bind_def except_return_def
        get_connection_no_faults execute_no_faults)

lemma read_result:
  assumes "P v" "\<And>rows view1. stmt (stored s) = Inr (rows, view1) \<Longrightarrow> P (g rows)"
  shows "\<exists>x. fst (with_connection (read_body stmt g) (except_return m v) s) = Inr x \<and> P x"
proof -
  obtain r s' where w: "with_connection (read_body stmt g) (except_return m v) s = (r, s')"
    by (cases "with_connection (read_body stmt g) (except_return m v) s")
  from read_cases[OF w] assms show ?thesis using w by auto
qed

lemma read_bodies:
  "get_all_expenses_body st limit uid
     = read_body (limit_clause limit (select_expenses st False True (\<lambda>e. e_user_id e = Some uid)))
         (map (format_expense True st))"
  "get_expense_by_id_body st expense_id uid
     = read_body (select_expenses st True False (\<lambda>e. e_id e = expense_id \<and> e_user_id e = Some uid))
         (\<lambda>rows. case rows of [] \<Rightarrow> None | expense # _ \<Rightarrow> Some (format_expense False st expense))"
  "get_expenses_by_date_range_body st start_date end_date uid
     = read_body (select_expenses st False True
          (\<lambda>e. between (date_value (date_column st) e) start_date end_date \<and> e_user_id e = Some uid))
         (map (format_expense True st))"
  "get_total_expense_body st sd ed uid
     = read_body (if sd \<noteq> None \<and> ed \<noteq> None then
             sum_amount [''amount'', date_column st, ''user_id'']
               (\<lambda>e. between (date_value (date_column st) e) (the sd) (the ed) \<and> e_user_id e = Some uid)
           else sum_amount [''amount'', ''user_id''] (\<lambda>e. e_user_id e = Some uid))
         (\<lambda>total. if total \<noteq> 0 then safe_float (Some total) else 0)"
  "get_expenses_by_category_body uid
     = read_body (category_totals uid)
         (map (\<lambda>category. category\<lparr>g_total_amount := safe_float (Some (g_total_amount category))\<rparr>))"
  by (rule ext; simp add: read_body_def get_all_expenses_body_def get_expense_by_id_body_def
        get_expenses_by_date_range_body_def get_total_expense_body_def
        get_expenses_by_category_body_def)+

lemma set_order_by_desc: "set (order_by_desc key xs) = set xs"
  by (simp add: order_by_desc_def)

lemma d_id_format_expense: "d_id (format_expense shorten st x) = d_id x"
  by (simp add: format_expense_def Let_def)

lemma select_expenses_ids:
  assumes "select_expenses st b ord cond view = Inr (rows, view1)"
  shows "\<forall>r\<in>set rows. \<exists>e\<in>set (expenses view). cond e \<and> d_id r = e_id e"
proof
  let ?joined = "concat (map (left_join (categories view)) (filter cond (expenses view)))"
  let ?sorted = "if ord then order_by_desc (\<lambda>ec. date_value (date_column st) (fst ec)) ?joined
                 else ?joined"
  fix r assume r: "r \<in> set rows"
  from assms have "rows = map (select_fields st b) ?sorted"
    by (auto simp: select_expenses_def Let_def simp del: check_columns.simps split: option.splits)
  moreover have "set ?sorted = set ?joined" by (simp add: set_order_by_desc)
  ultimately obtain ec where ec: "ec \<in> set ?joined" "r = select_fields st b ec"
    using r by auto
  then obtain e where e: "e \<in> set (expenses view)" "cond e" "ec \<in> set (left_join (categories view) e)"
    by auto
  have "fst ec = e" using e(3) by (auto simp: left_join_def split: list.splits)
  then have "d_id r = e_id e" using ec(2) by (cases ec) (simp add: select_fields_def)
  then show "\<exists>e\<in>set (expenses view). cond e \<and> d_id r = e_id e" using e by blast
qed

lemma limit_clause_ids:
  assumes "limit_clause limit stmt view = Inr (rows, view1)"
  shows "\<exists>rows0. stmt view = Inr (rows0, view1) \<and> set rows \<subseteq> set rows0"
  using assms
  by (auto simp: limit_clause_def split: if_splits sum.splits dest: in_set_takeD)

lemma scoped_all:
  assumes "user_id (session s) = Some b"
  shows "\<exists>rows. fst (get_all_expenses limit s) = Inr rows
           \<and> (\<forall>r\<in>set rows. \<exists>e\<in>set (expenses (stored s)). e_user_id e = Some b \<and> e_id e = d_id r)"
proof -
  obtain st s1 where g: "get_table_structure s = (Inr st, s1)" "stored s1 = stored s"
    "session s1 = session s" by (rule get_table_structure_cases)
  show ?thesis
  proof (cases "truthy (user_id (session s))")
    case False
    then show ?thesis using g by (simp add: get_all_expenses_def get_current_user_id_def Let_def)
  next
    case True
    have eq: "get_all_expenses limit s
                = with_connection (get_all_expenses_body st limit b)
                    (except_return ''Error getting expenses: '' []) s1"
      using True g assms by (simp add: get_all_expenses_def get_current_user_id_def Let_def)
    show ?thesis unfolding eq read_bodies
    proof (rule read_result)
      fix rows view1
      assume "limit_clause limit (select_expenses st False True (\<lambda>e. e_user_id e = Some b)) (stored s1)
                = Inr (rows, view1)"
      from limit_clause_ids[OF this] obtain rows0 where
        "select_expenses st False True (\<lambda>e. e_user_id e = Some b) (stored s1) = Inr (rows0, view1)"
        and sub: "set rows \<subseteq> set rows0" by blast
      from select_expenses_ids[OF this(1)] sub g(2)
      show "\<forall>r\<in>set (map (format_expense True st) rows).
              \<exists>e\<in>set (expenses (stored s)). e_user_id e = Some b \<and> e_id e = d_id r"
        by (fastforce simp: d_id_format_expense)
    qed simp
  qed
qed

lemma scoped_by_id:
  assumes "user_id (session s) = Some b"
  shows "\<exists>found. fst (get_expense_by_id expense_id s) = Inr found
           \<and> (\<forall>r. found = Some r \<longrightarrow>
                 (\<exists>e\<in>set (expenses (stored s)). e_user_id e = Some b \<and> e_id e = d_id r))"
proof -
  obtain st s1 where g: "get_table_structure s = (Inr st, s1)" "stored s1 = stored s"
    "session s1 = session s" by (rule get_table_structure_cases)
  show ?thesis
  proof (cases "truthy (user_id (session s))")
    case False
    then show ?thesis using g by (simp add: get_expense_by_id_def get_current_user_id_def Let_def)
  next
    case True
    have eq: "get_expense_by_id expense_id s
                = with_connection (get_expense_by_id_body st expense_id b)
                    (except_return ''Error getting expense: '' None) s1"
      using True g assms by (simp add: get_expense_by_id_def get_current_user_id_def Let_def)
    show ?thesis unfolding eq read_bodies
    proof (rule read_result)
      fix rows view1
      assume "select_expenses st True False (\<lambda>e. e_id e = expense_id \<and> e_user_id e = Some b) (stored s1)
                = Inr (rows, view1)"
      from select_expenses_ids[OF this] g(2)
      show "\<forall>r. (case rows of [] \<Rightarrow> None | expense # x \<Rightarrow> Some (format_expense False st expense)) = Some r \<longrightarrow>
              (\<exists>e\<in>set (expenses (stored s)). e_user_id e = Some b \<and> e_id e = d_id r)"
        by (cases rows) (auto simp: d_id_format_expense)
    qed simp
  qed
qed

lemma scoped_range:
  assumes "user_id (session s) = Some b"
  shows "\<exists>rows. fst (get_expenses_by_date_range start_date end_date s) = Inr rows
           \<and> (\<forall>r\<in>set rows. \<exists>e\<in>set (expenses (stored s)). e_user_id e = Some b \<and> e_id e = d_id r)"
proof -
  obtain st s1 where g: "get_table_structure s = (Inr st, s1)" "stored s1 = stored s"
    "session s1 = session s" by (rule get_table_structure_cases)
  show ?thesis
  proof (cases "truthy (user_id (session s))")
    case False
    then show ?thesis using g by (simp add: get_expenses_by_date_range_def get_current_user_id_def Let_def)
  next
    case True
    have eq: "get_expenses_by_date_range start_date end_date s
                = with_connection (get_expenses_by_date_range_body st start_date end_date b)
                    (except_return ''Error getting expenses by date range: '' []) s1"
      using True g assms by (simp add: get_expenses_by_date_range_def get_current_user_id_def Let_def)
    show ?thesis unfolding eq read_bodies
    proof (rule read_result)
      fix rows view1
      assume "select_expenses st False True
                (\<lambda>e. between (date_value (date_column st) e) start_date end_date \<and> e_user_id e = Some b)
                (stored s1) = Inr (rows, view1)"
      from select_expenses_ids[OF this] g(2)
      show "\<forall>r\<in>set (map (format_expense True st) rows).
              \<exists>e\<in>set (expenses (stored s)). e_user_id e = Some b \<and> e_id e = d_id r"
        by (fastforce simp: d_id_format_expense)
    qed simp
  qed
qed

lemma other_owner_excluded:
  assumes "distinct (map e_id es)" "e \<in> set es" "e_user_id e = Some a" "a \<noteq> b"
    and "\<exists>e'\<in>set es. e_user_id e' = Some b \<and> e_id e' = k"
  shows "e_id e \<noteq> k"
proof
  assume "e_id e = k"
  with assms(5) obtain e' where e': "e' \<in> set es" "e_user_id e' = Some b" "e_id e' = e_id e" by auto
  have "inj_on e_id (set es)" using assms(1) by (simp add: distinct_map)
  then have "e' = e" using e' assms(2) by (auto dest: inj_onD)
  then show False using e'(2) assms(3,4) by simp
qed

text \<open>
  C1. With user \<open>b\<close> in the session, every row returned by \<^verbatim>\<open>get_all_expenses\<close>,
  \<^verbatim>\<open>get_expense_by_id\<close> and \<^verbatim>\<open>get_expenses_by_date_range\<close> carries the id of a stored
  expense whose owner is \<open>b\<close>; and, ids being the primary key of the table, the id of a
  stored expense \<open>e\<close> owned by another user \<open>a\<close> is not among the returned rows. The
  returned dicts hold no owner column, so a row is identified by its id.
\<close>

theorem owner_scoping:
  assumes "user_id (session s) = Some b"
  shows "(\<exists>rows. fst (get_all_expenses limit s) = Inr rows
            \<and> (\<forall>r\<in>set rows. \<exists>e'\<in>set (expenses (stored s)). e_user_id e' = Some b \<and> e_id e' = d_id r)
            \<and> (distinct (map e_id (expenses (stored s))) \<and> e \<in> set (expenses (stored s))
                 \<and> e_user_id e = Some a \<and> a \<noteq> b \<longrightarrow> e_id e \<notin> d_id ` set rows))
       \<and> (\<exists>found. fst (get_expense_by_id expense_id s) = Inr found
            \<and> (\<forall>r. found = Some r \<longrightarrow>
                  (\<exists>e'\<in>set (expenses (stored s)). e_user_id e' = Some b \<and> e_id e' = d_id r))
            \<and> (distinct (map e_id (expenses (stored s))) \<and> e \<in> set (expenses (stored s))
                 \<and> e_user_id e = Some a \<and> a \<noteq> b \<longrightarrow> (\<forall>r. found = Some r \<longrightarrow> d_id r \<noteq> e_id e)))
       \<and> (\<exists>rows. fst (get_expenses_by_date_range start_date end_date s) = Inr rows
            \<and> (\<forall>r\<in>set rows. \<exists>e'\<in>set (expenses (stored s)). e_user_id e' = Some b \<and> e_id e' = d_id r)
            \<and> (distinct (map e_id (expenses (stored s))) \<and> e \<in> set (expenses (stored s))
                 \<and> e_user_id e = Some a \<and> a \<noteq> b \<longrightarrow> e_id e \<notin> d_id ` set rows))"
proof (intro conjI)
  from scoped_all[OF assms, of limit] obtain rows where
    r: "fst (get_all_expenses limit s) = Inr rows"
       "\<forall>r\<in>set rows. \<exists>e'\<in>set (expenses (stored s)). e_user_id e' = Some b \<and> e_id e' = d_id r"
    by blast
  have "e_id e \<notin> d_id ` set rows"
    if "distinct (map e_id (expenses (stored s)))" "e \<in> set (expenses (stored s))"
       "e_user_id e = Some a" "a \<noteq> b"
    using other_owner_excluded[OF that] r(2) by blast
  with r show "\<exists>rows. fst (get_all_expenses limit s) = Inr rows
            \<and> (\<forall>r\<in>set rows. \<exists>e'\<in>set (expenses (stored s)). e_user_id e' = Some b \<and> e_id e' = d_id r)
            \<and> (distinct (map e_id (expenses (stored s))) \<and> e \<in> set (expenses (stored s))
                 \<and> e_user_id e = Some a \<and> a \<noteq> b \<longrightarrow> e_id e \<notin> d_id ` set rows)"
    by blast
next
  from scoped_by_id[OF assms, of expense_id] obtain found where
    r: "fst (get_expense_by_id expense_id s) = Inr found"
       "\<forall>r. found = Some r \<longrightarrow>
          (\<exists>e'\<in>set (expenses (stored s)). e_user_id e' = Some b \<and> e_id e' = d_id r)"
    by blast
  have "\<forall>r. found = Some r \<longrightarrow> d_id r \<noteq> e_id e"
    if "distinct (map e_id (expenses (stored s)))" "e \<in> set (expenses (stored s))"
       "e_user_id e = Some a" "a \<noteq> b"
    using other_owner_excluded[OF that] r(2) by metis
  with r show "\<exists>found. fst (get_expense_by_id expense_id s) = Inr found
            \<and> (\<forall>r. found = Some r \<longrightarrow>
                  (\<exists>e'\<in>set (expenses (stored s)). e_user_id e' = Some b \<and> e_id e' = d_id r))
            \<and> (distinct (map e_id (expenses (stored s))) \<and> e \<in> set (expenses (stored s))
                 \<and> e_user_id e = Some a \<and> a \<noteq> b \<longrightarrow> (\<forall>r. found = Some r \<longrightarrow> d_id r \<noteq> e_id e))"
    by blast
next
  from scoped_range[OF assms, of start_date end_date] obtain rows where
    r: "fst (get_expenses_by_date_range start_date end_date s) = Inr rows"
       "\<forall>r\<in>set rows. \<exists>e'\<in>set (expenses (stored s)). e_user_id e' = Some b \<and> e_id e' = d_id r"
    by blast
  have "e_id e \<notin> d_id ` set rows"
    if "distinct (map e_id (expenses (stored s)))" "e \<in> set (expenses (stored s))"
       "e_user_id e = Some a" "a \<noteq> b"
    using other_owner_excluded[OF that] r(2) by blast
  with r show "\<exists>rows. fst (get_expenses_by_date_range start_date end_date s) = Inr rows
            \<and> (\<forall>r\<in>set rows. \<exists>e'\<in>set (expenses (stored s)). e_user_id e' = Some b \<and> e_id e' = d_id r)
            \<and> (distinct (map e_id (expenses (stored s))) \<and> e \<in> set (expenses (stored s))
                 \<and> e_user_id e = Some a \<and> a \<noteq> b \<longrightarrow> e_id e \<notin> d_id ` set rows)"
    by blast
qed

theorem owner_scoping_witness:
  "(\<exists>rows. fst (get_all_expenses None (state0 (Some 2) [])) = Inr rows \<and> 1 \<notin> d_id ` set rows
          \<and> map d_id rows = [2])
   \<and> (\<exists>found. fst (get_expense_by_id 1 (state0 (Some 2) [])) = Inr found
         \<and> (\<forall>r. found = Some r \<longrightarrow> d_id r \<noteq> 1))
   \<and> (\<exists>rows. fst (get_expenses_by_date_range 0 100 (state0 (Some 2) [])) = Inr rows
         \<and> 1 \<notin> d_id ` set rows)"
proof -
  let ?e = "\<lparr>e_id = 1, e_user_id = Some 1, e_title = Some ''Lunch'', e_category_id = Some 1,
             e_amount = 1250, e_description = Some [], e_expense_date = Some 10,
             e_created_at = 10\<rparr>"
  have h: "user_id (session (state0 (Some 2) [])) = Some 2"
    "distinct (map e_id (expenses (stored (state0 (Some 2) []))))"
    "?e \<in> set (expenses (stored (state0 (Some 2) [])))"
    by (simp_all add: state0_def db0_def anonymous_def)
  from owner_scoping[OF h(1), where e = ?e and a = 1 and limit = None and expense_id = 1
         and start_date = 0 and end_date = 100] h(2,3)
  have t: "(\<exists>rows. fst (get_all_expenses None (state0 (Some 2) [])) = Inr rows
             \<and> 1 \<notin> d_id ` set rows)
   \<and> (\<exists>found. fst (get_expense_by_id 1 (state0 (Some 2) [])) = Inr found
         \<and> (\<forall>r. found = Some r \<longrightarrow> d_id r \<noteq> 1))
   \<and> (\<exists>rows. fst (get_expenses_by_date_range 0 100 (state0 (Some 2) [])) = Inr rows
         \<and> 1 \<notin> d_id ` set rows)"
    by clarsimp
  have c: "map_sum id (map d_id) (fst (get_all_expenses None (state0 (Some 2) []))) = Inr [2]"
    by code_simp
  from t c show ?thesis by auto
qed

subsection \<open>Totals\<close>

lemma with_connection_no_faults:
  assumes "faults s = []"
  shows "faults (snd (with_connection (read_body stmt g) (except_return m v) s)) = []"
  using assms
  by (cases "stmt (stored s)")
     (auto simp: with_connection_def read_body_def io_bind_def except_return_def close_def
        print_def get_connection_no_faults execute_no_faults)

lemma get_table_structure_no_faults:
  assumes "faults s = []"
  shows "faults (snd (get_table_structure s)) = []"
  using assms
  by (auto simp: get_table_structure_def with_connection_def get_table_structure_body_def
        io_bind_def close_def describe_def Let_def get_connection_no_faults execute_no_faults
        split: option.splits)

lemma get_table_structure_cases':
  obtains st s1 where "get_table_structure s = (Inr st, s1)" "stored s1 = stored s"
    "session s1 = session s" "faults s = [] \<longrightarrow> faults s1 = []"
proof -
  obtain st s1 where g: "get_table_structure s = (Inr st, s1)" "stored s1 = stored s"
    "session s1 = session s" by (rule get_table_structure_cases)
  moreover have "faults s = [] \<longrightarrow> faults s1 = []"
    using get_table_structure_no_faults[of s] g(1) by simp
  ultimately show ?thesis using that by blast
qed

lemma total_no_faults:
  assumes "faults s = []" "user_id (session s) = Some u" "u \<noteq> 0" "expenses_has_user_id (stored s)"
  shows "fst (get_total_expense None None s)
           = Inr (sum_list (map e_amount (filter (\<lambda>e. e_user_id e = Some u) (expenses (stored s)))))"
proof -
  obtain st s1 where g: "get_table_structure s = (Inr st, s1)" "stored s1 = stored s"
    "session s1 = session s" "faults s = [] \<longrightarrow> faults s1 = []"
    by (rule get_table_structure_cases')
  have c: "check_columns (expenses_columns (stored s1)) [''amount'', ''user_id''] = None"
    using assms(4) g(2) by (simp add: expenses_columns_def)
  have "fst (get_total_expense None None s)
          = fst (with_connection (get_total_expense_body st None None u)
                   (except_return ''Error getting total expense: '' 0) s1)"
    using g assms by (simp add: get_total_expense_def get_current_user_id_def Let_def truthy_def)
  also have "\<dots> = Inr (sum_list (map e_amount (filter (\<lambda>e. e_user_id e = Some u) (expenses (stored s)))))"
    unfolding read_bodies using g assms(1) c
    by (simp add: read_no_faults sum_amount_def safe_float_def del: check_columns.simps)
  finally show ?thesis .
qed

text \<open>
  C9. \<^verbatim>\<open>get_total_expense\<close> called with exactly one of the two dates does what the
  call without dates does: same result, same final state, under every schedule of failures.
  And when no step fails, a user is logged in and the table has its \<^verbatim>\<open>user_id\<close>
  column, that result is the sum of all amounts of the user's expenses: the all-time total,
  not a half-open range and not an error.
\<close>

theorem one_sided_range_is_ignored:
  "get_total_expense (Some d) None s = get_total_expense None None s
   \<and> get_total_expense None (Some d) s = get_total_expense None None s
   \<and> (faults s = [] \<and> user_id (session s) = Some u \<and> u \<noteq> 0 \<and> expenses_has_user_id (stored s)
        \<longrightarrow> fst (get_total_expense None None s)
              = Inr (sum_list (map e_amount (filter (\<lambda>e. e_user_id e = Some u) (expenses (stored s))))))"
proof -
  have b: "get_total_expense_body st (Some d) None = get_total_expense_body st None None"
          "get_total_expense_body st None (Some d) = get_total_expense_body st None None" for st
    by (intro ext; simp add: get_total_expense_body_def)+
  have "get_total_expense (Some d) None s = get_total_expense None None s"
    unfolding get_total_expense_def b by (rule refl)
  moreover have "get_total_expense None (Some d) s = get_total_expense None None s"
    unfolding get_total_expense_def b by (rule refl)
  ultimately show ?thesis using total_no_faults[of s u] by simp
qed

text \<open>
  User 1 has expenses of 12.50 on day 10 and of 4.00 on day 40: with day 30 as only bound,
  on either side, the total is 16.50.
\<close>

theorem one_sided_range_is_ignored_witness:
  "fst (get_total_expense (Some 30) None (state0 (Some 1) [])) = Inr 1650
   \<and> fst (get_total_expense None (Some 30) (state0 (Some 1) [])) = Inr 1650"
  using one_sided_range_is_ignored[where s = "state0 (Some 1) []" and u = 1 and d = 30]
  by (simp add: state0_def db0_def anonymous_def)

subsection \<open>Per-category totals against the overall total\<close>









subsection \<open>Registration\<close>

lemma io_bind_Inr:
  assumes "io_bind m f s = (Inr v, s')"
  obtains x s1 where "m s = (Inr x, s1)" "f x s1 = (Inr v, s')"
  using assms by (auto simp: io_bind_def split: prod.splits sum.splits)

lemma execute_Inr:
  assumes "execute stmt view s = (Inr x, s1)"
  shows "stmt view = Inr x" "stored s1 = stored s" "session s1 = session s"
  using assms by (auto simp: execute_def round_trip_def split: list.splits if_splits)

lemma execute_stored: "execute stmt view s = (r, s1) \<Longrightarrow> stored s1 = stored s"
  by (auto simp: execute_def round_trip_def split: list.splits if_splits)

lemma commit_Inr:
  assumes "commit view s = (Inr x, s1)"
  shows "stored s1 = view" "session s1 = session s"
  using assms by (auto simp: commit_def round_trip_def split: list.splits if_splits)

lemma with_connection_Inr:
  assumes "with_connection body handler s = (Inr v, s')"
    and "\<And>e c s2 x s3. handler e c s2 \<noteq> (Inr x, s3)"
  obtains s1 s2 where "get_connection s = (Inr (stored s), s1)" "stored s1 = stored s"
    "body (stored s) s1 = (Inr v, s2)" "s' = close s2"
proof (cases s rule: get_connection_cases)
  case (fails e s1)
  then show ?thesis using assms by (simp add: with_connection_def)
next
  case (connected s1)
  then show ?thesis using assms that
    by (auto simp: with_connection_def split: prod.splits sum.splits)
qed

lemma register_user_except_raises: "register_user_except e c s \<noteq> (Inr x, s')"
  by (auto simp: register_user_except_def Let_def split: prod.splits sum.splits)

lemma register_user_except_Inl: "\<exists>e'. fst (register_user_except e c s) = Inl e'"
  by (auto simp: register_user_except_def Let_def split: prod.splits sum.splits)

lemma register_user_body_duplicate:
  assumes "\<exists>u\<in>set (users view). u_email u = email"
    and "register_user_body gph name email password view s = (r, s')"
  shows "(\<exists>e. r = Inl e) \<and> stored s' = stored s"
proof (cases "describe ''users''" view s rule: execute_cases)
  case (fails e s1)
  then show ?thesis using assms(2) execute_stored[OF fails]
    by (auto simp: register_user_body_def io_bind_def)
next
  case (runs s1)
  note d = this
  have s1: "stored s1 = stored s" using execute_stored[OF d] .
  show ?thesis
  proof (cases "count_users_by_email email" view s1 rule: execute_cases)
    case (fails e s2)
    then show ?thesis using assms(2) d s1 execute_stored[OF fails]
      by (auto simp: register_user_body_def io_bind_def describe_def)
  next
    case (runs s2)
    have "filter (\<lambda>u. u_email u = email) (users view) \<noteq> []"
      using assms(1) by (simp add: filter_empty_conv)
    then have "0 < int (length (filter (\<lambda>u. u_email u = email) (users view)))" by simp
    then show ?thesis using assms(2) d s1 runs execute_stored[OF runs]
      by (auto simp: register_user_body_def io_bind_def describe_def count_users_by_email_def print_def)
  qed
qed

lemma register_user_duplicate:
  assumes "\<exists>u\<in>set (users (stored s)). u_email u = email"
  shows "(\<exists>e. fst (register_user gph name email password s) = Inl e)
         \<and> stored (snd (register_user gph name email password s)) = stored s"
proof (cases s rule: get_connection_cases)
  case (fails e s1)
  have "stored s1 = stored s" using fails
    by (auto simp: get_connection_def round_trip_def split: list.splits if_splits)
  then show ?thesis using fails
    by (simp add: register_user_def with_connection_def register_user_except_def Let_def print_def)
next
  case (connected s1)
  obtain r s2 where b: "register_user_body gph name email password (stored s) s1 = (r, s2)"
    by (cases "register_user_body gph name email password (stored s) s1")
  from register_user_body_duplicate[OF assms b] obtain e where e: "r = Inl e" "stored s2 = stored s1"
    by blast
  obtain r3 s3 where h: "register_user_except e True s2 = (r3, s3)"
    by (cases "register_user_except e True s2")
  have "keeps stored (register_user_except e True)"
    by (rule keeps_rollback_except) simp_all
  then have "stored s3 = stored s2" using h by (rule keepsD2)
  moreover obtain e' where "r3 = Inl e'" using register_user_except_Inl[of e True s2] h by auto
  ultimately show ?thesis using connected b e h
    by (simp add: register_user_def with_connection_def close_def)
qed

lemma register_user_body_success:
  assumes "register_user_body gph name email password view s = (Inr new_id, s')"
  shows "\<exists>u. stored s' = view\<lparr>users := users view @ [u], next_user_id := new_id + 1\<rparr>
           \<and> u_id u = new_id \<and> u_email u = email \<and> u_password u = gph password"
proof -
  from assms obtain x1 s1 where
    e1: "execute (describe ''users'') view s = (Inr x1, s1)"
    and r1: "(case x1 of (available_columns, view1) \<Rightarrow>
     io_bind (execute (count_users_by_email email) view1) (\<lambda>(existing, view2) s.
       if existing > 0 then
         (Inl (Exception (''User with email '' @ email @ '' already exists!'')),
          print (''User with email '' @ email @ '' already exists!'') s)
       else
         (let hashed_password = gph password;
              sql = (if ''username'' \<in> set available_columns
                       then insert_user (Some name) None email hashed_password
                     else if ''name'' \<in> set available_columns
                       then insert_user None (Some name) email hashed_password
                     else insert_user None None email hashed_password)
          in io_bind (execute sql view2) (\<lambda>(lastrowid, view3).
             io_bind (commit view3) (\<lambda>_ s1. (Inr lastrowid, s1)))) s)) s1 = (Inr new_id, s')"
    unfolding register_user_body_def by (rule io_bind_Inr)
  from execute_Inr(1)[OF e1] obtain cols where x1: "x1 = (cols, view)"
    by (auto simp: describe_def)
  from r1[unfolded x1, simplified] obtain x2 s2 where
    e2: "execute (count_users_by_email email) view s1 = (Inr x2, s2)"
    and r2: "(case x2 of (existing, view2) \<Rightarrow> \<lambda>s.
       if existing > 0 then
         (Inl (Exception (''User with email '' @ email @ '' already exists!'')),
          print (''User with email '' @ email @ '' already exists!'') s)
       else
         (let hashed_password = gph password;
              sql = (if ''username'' \<in> set cols
                       then insert_user (Some name) None email hashed_password
                     else if ''name'' \<in> set cols
                       then insert_user None (Some name) email hashed_password
                     else insert_user None None email hashed_password)
          in io_bind (execute sql view2) (\<lambda>(lastrowid, view3).
             io_bind (commit view3) (\<lambda>_ s1. (Inr lastrowid, s1)))) s) s2 = (Inr new_id, s')"
    by (rule io_bind_Inr)
  from execute_Inr(1)[OF e2] obtain n where x2: "x2 = (n, view)"
    by (auto simp: count_users_by_email_def)
  define sql where "sql = (if ''username'' \<in> set cols
                       then insert_user (Some name) None email (gph password)
                     else if ''name'' \<in> set cols
                       then insert_user None (Some name) email (gph password)
                     else insert_user None None email (gph password))"
  from r2[unfolded x2] have n: "\<not> n > 0"
    and r3: "io_bind (execute sql view) (\<lambda>(lastrowid, view3).
             io_bind (commit view3) (\<lambda>_ s1. (Inr lastrowid, s1))) s2 = (Inr new_id, s')"
    by (auto simp: Let_def sql_def split: if_splits)
  from r3 obtain x3 s3 where
    e3: "execute sql view s2 = (Inr x3, s3)"
    and r4: "(case x3 of (lastrowid, view3) \<Rightarrow>
             io_bind (commit view3) (\<lambda>_ s1. (Inr lastrowid, s1))) s3 = (Inr new_id, s')"
    by (rule io_bind_Inr)
  obtain lastrowid view3 where x3: "x3 = (lastrowid, view3)" by (cases x3)
  have ins: "sql view = Inr (lastrowid, view3)" using execute_Inr(1)[OF e3] x3 by simp
  from r4 have "io_bind (commit view3) (\<lambda>_ s1. (Inr lastrowid, s1)) s3 = (Inr new_id, s')"
    by (simp add: x3)
  then obtain x4 s4 where
    e4: "commit view3 s3 = (Inr x4, s4)" and r5: "(Inr lastrowid, s4) = (Inr new_id, s')"
    by (auto elim: io_bind_Inr)
  have "stored s' = view3" "lastrowid = new_id" using commit_Inr(1)[OF e4] r5 by auto
  moreover have "\<exists>u. view3 = view\<lparr>users := users view @ [u], next_user_id := lastrowid + 1\<rparr>
           \<and> u_id u = lastrowid \<and> u_email u = email \<and> u_password u = gph password"
    using ins by (auto simp: sql_def insert_user_def Let_def split: if_splits)
  ultimately show ?thesis by auto
qed

text \<open>
  C5. When a user row with the given email exists, \<^verbatim>\<open>register_user\<close> raises and the
  committed tables are what they were (no row inserted, no row changed), under every schedule
  of failures. When \<^verbatim>\<open>register_user\<close> returns an id, the users table has grown by one
  row with that id and email, whose password column holds what
  \<^verbatim>\<open>generate_password_hash\<close> returned for the password: the output of the hashing
  library, which is not the plaintext wherever the library's output differs from its input.
\<close>

theorem register_user_duplicate_and_hash:
  "((\<exists>u\<in>set (users (stored s)). u_email u = email) \<longrightarrow>
      (\<exists>e. fst (register_user generate_password_hash name email password s) = Inl e)
      \<and> stored (snd (register_user generate_password_hash name email password s)) = stored s)
   \<and> (\<forall>new_id. fst (register_user generate_password_hash name email password s) = Inr new_id \<longrightarrow>
        (\<exists>u. users (stored (snd (register_user generate_password_hash name email password s)))
                = users (stored s) @ [u]
              \<and> u_id u = new_id \<and> u_email u = email
              \<and> u_password u = generate_password_hash password
              \<and> (generate_password_hash password \<noteq> password \<longrightarrow> u_password u \<noteq> password)))"
proof (intro conjI impI allI)
  assume "\<exists>u\<in>set (users (stored s)). u_email u = email"
  from register_user_duplicate[OF this]
  show "\<exists>e. fst (register_user generate_password_hash name email password s) = Inl e"
    and "stored (snd (register_user generate_password_hash name email password s)) = stored s"
    by blast+
next
  fix new_id
  assume a: "fst (register_user generate_password_hash name email password s) = Inr new_id"
  obtain s' where r: "register_user generate_password_hash name email password s = (Inr new_id, s')"
    using a by (cases "register_user generate_password_hash name email password s") auto
  from r[unfolded register_user_def] obtain s1 s2 where
    b: "register_user_body generate_password_hash name email password (stored s) s1 = (Inr new_id, s2)"
    and c: "s' = close s2"
    by (rule with_connection_Inr) (rule register_user_except_raises)
  from register_user_body_success[OF b] c r
  show "\<exists>u. users (stored (snd (register_user generate_password_hash name email password s)))
                = users (stored s) @ [u]
              \<and> u_id u = new_id \<and> u_email u = email
              \<and> u_password u = generate_password_hash password
              \<and> (generate_password_hash password \<noteq> password \<longrightarrow> u_password u \<noteq> password)"
    by (auto simp: close_def)
qed

text \<open>
  A duplicate registration for \<^verbatim>\<open>ann@x.org\<close> raises and changes nothing; a new
  registration stores the hash.
\<close>

theorem register_user_duplicate_and_hash_witness:
  "(\<exists>e. fst (register_user example_hash ''Ann'' ''ann@x.org'' ''secret9'' (state0 None [])) = Inl e)
   \<and> stored (snd (register_user example_hash ''Ann'' ''ann@x.org'' ''secret9'' (state0 None []))) = db0
   \<and> fst (register_user example_hash ''Cy'' ''cy@x.org'' ''secret3'' (state0 None [])) = Inr 3
   \<and> (\<exists>u. users (stored (snd (register_user example_hash ''Cy'' ''cy@x.org'' ''secret3'' (state0 None []))))
             = users db0 @ [u]
           \<and> u_password u = ''pbkdf2:sha256$salt$3terces'' \<and> u_password u \<noteq> ''secret3'')"
proof -
  have r: "fst (register_user example_hash ''Cy'' ''cy@x.org'' ''secret3'' (state0 None [])) = Inr 3"
    by code_simp
  from register_user_duplicate_and_hash[where s = "state0 None []" and email = "''ann@x.org''"
         and generate_password_hash = example_hash and name = "''Ann''" and password = "''secret9''"]
  have d: "(\<exists>e. fst (register_user example_hash ''Ann'' ''ann@x.org'' ''secret9'' (state0 None [])) = Inl e)
   \<and> stored (snd (register_user example_hash ''Ann'' ''ann@x.org'' ''secret9'' (state0 None []))) = db0"
    by (simp add: state0_def db0_def)
  from register_user_duplicate_and_hash[where s = "state0 None []" and email = "''cy@x.org''"
         and generate_password_hash = example_hash and name = "''Cy''" and password = "''secret3''"] r
  have "\<exists>u. users (stored (snd (register_user example_hash ''Cy'' ''cy@x.org'' ''secret3'' (state0 None []))))
             = users db0 @ [u]
           \<and> u_password u = ''pbkdf2:sha256$salt$3terces'' \<and> u_password u \<noteq> ''secret3''"
    by (auto simp: state0_def example_hash_def)
  with r d show ?thesis by blast
qed

subsection \<open>Login\<close>











subsection \<open>Where a failure of the data layer ends up\<close>
















end
